theory Spec2Isabelle
  imports Complex_Main "HOL-Library.AList"
begin

section \<open>Go strings, runes and the library functions that sanitize calls\<close>

text \<open>
  A Go string is a sequence of bytes; \<open>len\<close> counts bytes and \<open>s[i]\<close> reads a byte.
  It is modelled by \<open>string\<close> (a list of 8-bit characters), a byte value by
  \<open>of_char c :: nat\<close> and a rune by the natural number of its code point (no function
  below produces a negative rune).

  \<open>DecodeRuneInString\<close> follows \<open>unicode/utf8\<close>: an ASCII byte is its own rune, the
  lead bytes \<open>0xC2..0xF4\<close> start a sequence of 2, 3 or 4 bytes whose second byte is
  restricted by the accept range of the lead byte, and everything else decodes to
  \<open>RuneError\<close> with width 1. The masks \<open>mask2\<close>, \<open>mask3\<close>, \<open>mask4\<close> and \<open>maskx\<close> are
  the remainders modulo 32, 16, 8 and 64.
\<close>

definition RuneError :: nat where
  "RuneError = 0xFFFD"

definition DecodeRuneInString :: "string \<Rightarrow> nat \<times> nat" where
  "DecodeRuneInString s =
     (case s of
        [] \<Rightarrow> (RuneError, 0)
      | c0 # _ \<Rightarrow>
          let s0 = (of_char c0 :: nat) in
          if s0 < 0x80 then (s0, 1)
          else if s0 < 0xC2 \<or> 0xF4 < s0 then (RuneError, 1)
          else
            let sz = (if s0 < 0xE0 then 2 else if s0 < 0xF0 then 3 else 4 :: nat);
                lo = (if s0 = 0xE0 then 0xA0 else if s0 = 0xF0 then 0x90 else 0x80 :: nat);
                hi = (if s0 = 0xED then 0x9F else if s0 = 0xF4 then 0x8F else 0xBF :: nat)
            in
            if length s < sz then (RuneError, 1)
            else
              let s1 = (of_char (s ! 1) :: nat) in
              if s1 < lo \<or> hi < s1 then (RuneError, 1)
              else if sz \<le> 2 then ((s0 mod 32) * 64 + s1 mod 64, 2)
              else
                let s2 = (of_char (s ! 2) :: nat) in
                if s2 < 0x80 \<or> 0xBF < s2 then (RuneError, 1)
                else if sz \<le> 3 then ((s0 mod 16) * 4096 + (s1 mod 64) * 64 + s2 mod 64, 3)
                else
                  let s3 = (of_char (s ! 3) :: nat) in
                  if s3 < 0x80 \<or> 0xBF < s3 then (RuneError, 1)
                  else ((s0 mod 8) * 262144 + (s1 mod 64) * 4096 + (s2 mod 64) * 64
                          + s3 mod 64, 4))"

text \<open>
  \<open>EncodeRune\<close> is the UTF-8 encoding that \<open>Builder.WriteRune\<close> appends: surrogates and
  values beyond \<open>MaxRune\<close> are written as \<open>RuneError\<close>.
\<close>

definition EncodeRune :: "nat \<Rightarrow> string" where
  "EncodeRune r =
     (if r \<le> 0x7F then [char_of r]
      else if r \<le> 0x7FF then [char_of (0xC0 + r div 64), char_of (0x80 + r mod 64)]
      else
        let r' = (if 0x10FFFF < r \<or> (0xD800 \<le> r \<and> r \<le> 0xDFFF) then RuneError else r) in
        if r' \<le> 0xFFFF
        then [char_of (0xE0 + r' div 4096), char_of (0x80 + (r' div 64) mod 64),
              char_of (0x80 + r' mod 64)]
        else [char_of (0xF0 + r' div 262144), char_of (0x80 + (r' div 4096) mod 64),
              char_of (0x80 + (r' div 64) mod 64), char_of (0x80 + r' mod 64)])"

text \<open>
  \<open>strings.Map\<close>: the runes of \<open>s\<close> in order (as \<open>for _, c := range s\<close> yields them,
  an invalid byte being \<open>RuneError\<close> of width 1), each replaced by the encoding of its image.
\<close>

function strings_Map :: "(nat \<Rightarrow> nat) \<Rightarrow> string \<Rightarrow> string" where
  "strings_Map mapping s =
     (if s = [] then []
      else
        let (c, width) = DecodeRuneInString s
        in EncodeRune (mapping c) @ strings_Map mapping (drop width s))"
  by pat_completeness auto
termination
proof (relation "measure (\<lambda>(mapping, s). length s)")
  show "wf (measure (\<lambda>(mapping, s). length s))"
    by simp
next
  fix mapping :: "nat \<Rightarrow> nat" and s :: string and x :: "nat \<times> nat" and c width :: nat
  assume "s \<noteq> []" and "x = DecodeRuneInString s" and "(c, width) = x"
  moreover have "0 < snd (DecodeRuneInString s)" if "s \<noteq> []"
    using that by (cases s) (simp_all add: DecodeRuneInString_def Let_def)
  ultimately have "0 < width"
    by (metis snd_conv)
  with \<open>s \<noteq> []\<close> show "((mapping, drop width s), (mapping, s)) \<in> measure (\<lambda>(mapping, s). length s)"
    by simp
qed

declare strings_Map.simps [simp del]

text \<open>
  \<open>unicode.IsLetter\<close> and \<open>unicode.IsDigit\<close> answer from a fixed property table up to
  \<open>MaxLatin1\<close> and from the range tables \<open>Letter\<close> and \<open>Digit\<close> beyond it. The range tables
  are not part of the repository; they are the parameter \<open>U\<close> of everything that
  sanitizes a name.
\<close>

record unicode =
  Letter :: "nat \<Rightarrow> bool"
  Digit :: "nat \<Rightarrow> bool"

definition MaxLatin1 :: nat where
  "MaxLatin1 = 0xFF"

definition IsLetter :: "unicode \<Rightarrow> nat \<Rightarrow> bool" where
  "IsLetter U r =
     (if r \<le> MaxLatin1
      then (0x41 \<le> r \<and> r \<le> 0x5A) \<or> (0x61 \<le> r \<and> r \<le> 0x7A)
           \<or> r = 0xAA \<or> r = 0xB5 \<or> r = 0xBA
           \<or> (0xC0 \<le> r \<and> r \<le> 0xD6) \<or> (0xD8 \<le> r \<and> r \<le> 0xF6) \<or> 0xF8 \<le> r
      else Letter U r)"

definition IsDigit :: "unicode \<Rightarrow> nat \<Rightarrow> bool" where
  "IsDigit U r = (if r \<le> MaxLatin1 then 0x30 \<le> r \<and> r \<le> 0x39 else Digit U r)"

definition HasPrefix :: "string \<Rightarrow> string \<Rightarrow> bool" where
  "HasPrefix s prefix = (length prefix \<le> length s \<and> take (length prefix) s = prefix)"

section \<open>The name sanitizer\<close>

text \<open>
  \<open>sanitize\<close>, \<open>sanitizeRune\<close>, \<open>spanName\<close> and \<open>urlName\<close> are the same text in the
  Prometheus exporter and in \<open>api/server/spanconverter.go\<close>; one definition stands for both.
\<close>

definition labelKeySizeLimit :: nat where
  "labelKeySizeLimit = 100"

definition sanitizeRune :: "unicode \<Rightarrow> nat \<Rightarrow> nat" where
  "sanitizeRune U r = (if IsLetter U r \<or> IsDigit U r then r else of_char CHR ''_'')"

definition sanitize :: "unicode \<Rightarrow> string \<Rightarrow> string" where
  "sanitize U s =
     (if length s = 0 then s
      else
        let s1 = (if length s > labelKeySizeLimit then take labelKeySizeLimit s else s);
            s2 = strings_Map (sanitizeRune U) s1;
            s3 = (if IsDigit U (of_char (s2 ! 0)) then ''key_'' @ s2 else s2);
            s4 = (if s3 ! 0 = CHR ''_'' then ''key'' @ s3 else s3)
        in s4)"

definition urlName :: "string \<Rightarrow> bool" where
  "urlName s = HasPrefix s ''/''"


section \<open>Spans and their duration\<close>

text \<open>
  A span is read-only input. A \<open>time.Time\<close> is modelled by the instant it denotes, in
  nanoseconds on an unbounded axis; \<open>Time_Sub\<close> is \<open>Time.Sub\<close>, whose result is a
  64-bit \<open>Duration\<close> that saturates at the largest and smallest duration.
  \<open>quo\<close> is Go's integer division, which truncates towards zero.
\<close>

record SpanData =
  Name :: string
  StartTime :: int
  EndTime :: int

definition maxDuration :: int where
  "maxDuration = 2 ^ 63 - 1"

definition minDuration :: int where
  "minDuration = - (2 ^ 63)"

definition Time_Sub :: "int \<Rightarrow> int \<Rightarrow> int" where
  "Time_Sub t u =
     (let d = t - u
      in if maxDuration < d then maxDuration else if d < minDuration then minDuration else d)"

definition Millisecond :: int where
  "Millisecond = 1000000"

definition quo :: "int \<Rightarrow> int \<Rightarrow> int" where
  "quo a b = sgn a * sgn b * (\<bar>a\<bar> div \<bar>b\<bar>)"

text \<open>
  The value handed to the histogram, \<open>float64(int64(spanTimeSpanNanos / time.Millisecond))\<close>.
  The quotient is below \<open>2 ^ 53\<close> in absolute value (lemma \<open>spanTimeSpanMillis_exact\<close>),
  so the conversion to \<open>float64\<close> is exact and the observation is modelled by the integer.
\<close>

definition spanTimeSpanMillis :: "SpanData \<Rightarrow> int" where
  "spanTimeSpanMillis sd =
     (let spanTimeSpanNanos = Time_Sub (EndTime sd) (StartTime sd)
      in quo spanTimeSpanNanos Millisecond)"

definition spanName :: "unicode \<Rightarrow> string \<Rightarrow> SpanData \<Rightarrow> string" where
  "spanName U namespace s =
     (let name = (if namespace \<noteq> [] then namespace @ ''_'' else [])
      in name @ sanitize U (Name s))"

section \<open>The Prometheus exporter and its collector\<close>

text \<open>
  A \<open>prometheus.Histogram\<close> is represented by the options it was created with and the
  observations it has received, oldest first (its count is their number, its sum their
  sum). Histograms are objects shared by reference: they live in a store, and the
  collector's map holds their addresses (positions in the store).

  What the collector does to the world outside is kept as a trace of effects: a call
  of \<open>reg.Register\<close>, a call of the configured \<open>OnError\<close> callback, a line written by
  \<open>log.Printf\<close>. The field \<open>reg\<close> is the answer of the registry to \<open>Register\<close>
  (\<open>None\<close> for \<open>nil\<close>), \<open>registerOnce\<close> is whether the \<open>sync.Once\<close> has run, and the
  Go map is an association list with one pair per key. Go does not fix the order in
  which \<open>Collect\<close> ranges over the map; the model takes the order of insertion, and no
  property below depends on it.
\<close>

datatype callback = Callback nat

datatype effect = RegisterCalled | OnErrorCalled callback string | LogPrintf string

record Options =
  Namespace :: string
  OnError :: "callback option"

record histogram =
  Opts_Namespace :: string
  Opts_Name :: string
  Opts_Help :: string
  Opts_Buckets :: "int list"
  observed :: "int list"

record collector =
  opts :: Options
  registerOnce :: bool
  reg :: "string option"
  registeredHistograms :: "(string \<times> nat) list"
  store :: "histogram list"
  effects :: "effect list"

definition newCollector :: "Options \<Rightarrow> string option \<Rightarrow> collector" where
  "newCollector opts' registrar =
     \<lparr>opts = opts', registerOnce = False, reg = registrar, registeredHistograms = [],
      store = [], effects = []\<rparr>"

definition onError :: "collector \<Rightarrow> string \<Rightarrow> collector" where
  "onError c err =
     (case OnError (opts c) of
        Some f \<Rightarrow> c\<lparr>effects := effects c @ [OnErrorCalled f err]\<rparr>
      | None \<Rightarrow>
          c\<lparr>effects := effects c @ [LogPrintf (''Failed to export spans to Prometheus: '' @ err)]\<rparr>)"

definition ensureRegisteredOnce :: "collector \<Rightarrow> collector" where
  "ensureRegisteredOnce c =
     (if registerOnce c then c
      else
        let c' = c\<lparr>registerOnce := True, effects := effects c @ [RegisterCalled]\<rparr>
        in case reg c of
             None \<Rightarrow> c'
           | Some err \<Rightarrow> onError c' (''cannot register the collector: '' @ err))"

text \<open>
  \<open>NewHistogram\<close> is the call of \<open>prometheus.NewHistogram\<close> in \<open>getHistogram\<close>, with
  the options written there; the new histogram gets the next free address. \<open>lookup\<close>
  and \<open>insert_histogram\<close> are the two accesses to the map, each under
  \<open>registeredHistosMu\<close>. \<open>Observe\<close> appends to the histogram at an address; the
  addresses that \<open>getHistogram\<close> returns are in the store (lemma \<open>lookup_in_store\<close>).
\<close>

definition Buckets :: "int list" where
  "Buckets = [1, 10, 50, 100, 250, 500, 1000, 10000, 60000, 120000]"

definition NewHistogram :: "unicode \<Rightarrow> collector \<Rightarrow> SpanData \<Rightarrow> collector \<times> nat" where
  "NewHistogram U c span' =
     (let h = \<lparr>Opts_Namespace = Namespace (opts c), Opts_Name = sanitize U (Name span'),
               Opts_Help = sanitize U (Name span'), Opts_Buckets = Buckets, observed = []\<rparr>
      in (c\<lparr>store := store c @ [h]\<rparr>, length (store c)))"

definition lookup :: "collector \<Rightarrow> string \<Rightarrow> nat option" where
  "lookup c sig = map_of (registeredHistograms c) sig"

definition insert_histogram :: "collector \<Rightarrow> string \<Rightarrow> nat \<Rightarrow> collector" where
  "insert_histogram c sig a =
     c\<lparr>registeredHistograms := AList.update sig a (registeredHistograms c)\<rparr>"

definition getHistogram :: "unicode \<Rightarrow> collector \<Rightarrow> SpanData \<Rightarrow> collector \<times> nat" where
  "getHistogram U c span' =
     (let sig = spanName U (Namespace (opts c)) span'
      in case lookup c sig of
           Some a \<Rightarrow> (ensureRegisteredOnce c, a)
         | None \<Rightarrow>
             let (c1, a) = NewHistogram U c span';
                 c2 = insert_histogram c1 sig a
             in (ensureRegisteredOnce c2, a))"

definition Observe :: "collector \<Rightarrow> nat \<Rightarrow> int \<Rightarrow> collector" where
  "Observe c a v =
     c\<lparr>store := (store c)[a := (store c ! a)\<lparr>observed := observed (store c ! a) @ [v]\<rparr>]\<rparr>"

definition ExportSpan :: "unicode \<Rightarrow> collector \<Rightarrow> SpanData \<Rightarrow> collector" where
  "ExportSpan U c sd =
     (if urlName (Name sd) then c
      else
        let (c', histo) = getHistogram U c sd
        in Observe c' histo (spanTimeSpanMillis sd))"

definition Collect_histograms :: "collector \<Rightarrow> histogram list" where
  "Collect_histograms c = map (\<lambda>(k, a). store c ! a) (registeredHistograms c)"


section \<open>The converter of api/server/spanconverter.go\<close>

text \<open>
  The converter keeps one OpenCensus measure per name and registers a view for it.
  \<open>views\<close> lists the views handed to \<open>view.Register\<close>, in order, and \<open>logged\<close> the
  arguments of \<open>logrus.Info\<close>. The bounds of \<open>view.Distribution\<close> are the constants
  \<open>0\<close>, \<open>1<<32\<close>, \<open>2<<32\<close> and \<open>3<<32\<close>. \<open>Converter_ExportSpan\<close> returns, next to the
  new state, the measurement that \<open>m.M(spanTimeMillis)\<close> builds.
\<close>

record Float64Measure =
  measure_name :: string
  measure_description :: string
  measure_unit :: string

record View =
  View_Name :: string
  View_Description :: string
  View_Measure :: Float64Measure
  Aggregation :: "int list"

record Converter =
  conv_Namespace :: string
  measures :: "(string \<times> Float64Measure) list"
  views :: "View list"
  logged :: "(string \<times> string) list"

definition NewConverter :: "string \<Rightarrow> Converter" where
  "NewConverter namespace =
     \<lparr>conv_Namespace = namespace, measures = [], views = [], logged = []\<rparr>"

definition Distribution :: "int list" where
  "Distribution = [0, 2 ^ 32, 2 * 2 ^ 32, 3 * 2 ^ 32]"

definition getMeasure :: "unicode \<Rightarrow> Converter \<Rightarrow> SpanData \<Rightarrow> Converter \<times> Float64Measure" where
  "getMeasure U c span' =
     (let sig = spanName U (conv_Namespace c) span'
      in case map_of (measures c) sig of
           Some m \<Rightarrow> (c, m)
         | None \<Rightarrow>
             let m = \<lparr>measure_name = ''span length'',
                      measure_description = ''The span length in milliseconds'',
                      measure_unit = ''ms''\<rparr>;
                 v = \<lparr>View_Name = spanName U (conv_Namespace c) span',
                      View_Description = spanName U (conv_Namespace c) span',
                      View_Measure = m, Aggregation = Distribution\<rparr>
             in (c\<lparr>logged := logged c @ [(''Creating Measure: %s'', sig)],
                   measures := AList.update sig m (measures c),
                   views := views c @ [v]\<rparr>, m))"

definition Converter_ExportSpan ::
    "unicode \<Rightarrow> Converter \<Rightarrow> SpanData \<Rightarrow> Converter \<times> (Float64Measure \<times> int)" where
  "Converter_ExportSpan U c sd =
     (let (c', m) = getMeasure U c sd
      in (c', (m, spanTimeSpanMillis sd)))"

section \<open>Concurrent callers of the exporter\<close>

text \<open>
  Several goroutines call \<open>ExportSpan\<close> on one collector. Between two points where a
  caller touches shared state it runs alone, so a call is a sequence of atomic steps:
  the test of \<open>urlName\<close> with the lookup under \<open>registeredHistosMu\<close>, the construction
  of a histogram, the assignment to the map under \<open>registeredHistosMu\<close>,
  \<open>ensureRegisteredOnce\<close>, and \<open>Observe\<close>. A position records where a caller stands and
  the local variable \<open>histogram\<close>; a schedule names the caller that takes the next step.
\<close>

datatype position =
    Start
  | Looked "nat option"
  | Created nat
  | Stored nat
  | Ensured nat
  | Finished

fun thread_step :: "unicode \<Rightarrow> collector \<Rightarrow> SpanData \<Rightarrow> position \<Rightarrow> collector \<times> position" where
  "thread_step U c sd Start =
     (if urlName (Name sd) then (c, Finished)
      else (c, Looked (lookup c (spanName U (Namespace (opts c)) sd))))"
| "thread_step U c sd (Looked None) =
     (let (c1, a) = NewHistogram U c sd in (c1, Created a))"
| "thread_step U c sd (Looked (Some a)) = (ensureRegisteredOnce c, Ensured a)"
| "thread_step U c sd (Created a) =
     (insert_histogram c (spanName U (Namespace (opts c)) sd) a, Stored a)"
| "thread_step U c sd (Stored a) = (ensureRegisteredOnce c, Ensured a)"
| "thread_step U c sd (Ensured a) = (Observe c a (spanTimeSpanMillis sd), Finished)"
| "thread_step U c sd Finished = (c, Finished)"

definition step ::
    "unicode \<Rightarrow> collector \<times> (SpanData \<times> position) list \<Rightarrow> nat
      \<Rightarrow> collector \<times> (SpanData \<times> position) list" where
  "step U sys i =
     (let (c, ts) = sys
      in if i < length ts
         then let (sd, p) = ts ! i; (c', p') = thread_step U c sd p
              in (c', ts[i := (sd, p')])
         else sys)"

definition run ::
    "unicode \<Rightarrow> collector \<times> (SpanData \<times> position) list \<Rightarrow> nat list
      \<Rightarrow> collector \<times> (SpanData \<times> position) list" where
  "run U sys schedule = foldl (step U) sys schedule"

definition spawn :: "collector \<Rightarrow> SpanData list \<Rightarrow> collector \<times> (SpanData \<times> position) list" where
  "spawn c sds = (c, map (\<lambda>sd. (sd, Start)) sds)"


section \<open>Notions used to state the properties\<close>

text \<open>
  The one fact about the range tables that a property below relies on: the replacement
  character U+FFFD, which stands for an undecodable byte, is neither a letter nor a digit.
  \<open>Latin1\<close> are tables with no entry at all; they serve to evaluate names whose runes
  all lie below \<open>MaxLatin1\<close>, for which the range tables are never consulted.
\<close>

definition tables_ok :: "unicode \<Rightarrow> bool" where
  "tables_ok U = (\<not> Letter U RuneError \<and> \<not> Digit U RuneError)"

definition Latin1 :: unicode where
  "Latin1 = \<lparr>Letter = (\<lambda>r. False), Digit = (\<lambda>r. False)\<rparr>"

text \<open>The characters \<open>[A-Za-z0-9]\<close> and \<open>[A-Za-z0-9_]\<close>, and the bytes of ASCII.\<close>

definition alnum :: "char \<Rightarrow> bool" where
  "alnum c =
     (let b = (of_char c :: nat)
      in (0x41 \<le> b \<and> b \<le> 0x5A) \<or> (0x61 \<le> b \<and> b \<le> 0x7A) \<or> (0x30 \<le> b \<and> b \<le> 0x39))"

definition ident_char :: "char \<Rightarrow> bool" where
  "ident_char c = (alnum c \<or> c = CHR ''_'')"

definition ascii :: "char \<Rightarrow> bool" where
  "ascii c = ((of_char c :: nat) < 0x80)"

text \<open>
  The collector after a sequence of calls of \<open>ExportSpan\<close> on a new one, the
  observations held by the histogram registered under a key, and the number of calls of
  \<open>reg.Register\<close> so far.
\<close>

definition exported :: "unicode \<Rightarrow> Options \<Rightarrow> string option \<Rightarrow> SpanData list \<Rightarrow> collector" where
  "exported U opts' registrar sds = foldl (ExportSpan U) (newCollector opts' registrar) sds"

definition observations :: "collector \<Rightarrow> string \<Rightarrow> int list" where
  "observations c sig = (case lookup c sig of None \<Rightarrow> [] | Some a \<Rightarrow> observed (store c ! a))"

definition registrations :: "collector \<Rightarrow> nat" where
  "registrations c = length (filter (\<lambda>e. e = RegisterCalled) (effects c))"

text \<open>
  The collector's map is well formed when its keys are pairwise different, its
  histograms are pairwise different objects, and each of them is in the store.
\<close>

definition wf_collector :: "collector \<Rightarrow> bool" where
  "wf_collector c =
     (distinct (map fst (registeredHistograms c)) \<and> distinct (map snd (registeredHistograms c))
      \<and> list_all (\<lambda>a. a < length (store c)) (map snd (registeredHistograms c)))"

section \<open>UTF-8 and the sanitizer\<close>

lemma EncodeRune_ne: "EncodeRune r \<noteq> []"
  by (simp add: EncodeRune_def Let_def)

lemma strings_Map_ne: "s \<noteq> [] \<Longrightarrow> strings_Map f s \<noteq> []"
  by (subst strings_Map.simps) (simp add: EncodeRune_ne split: prod.split)

lemma length_EncodeRune:
  "length (EncodeRune r) \<le> 4"
  "r \<le> 0xFFFF \<Longrightarrow> length (EncodeRune r) \<le> 3"
  "r \<le> 0x7FF \<Longrightarrow> length (EncodeRune r) \<le> 2"
  "r \<le> 0x7F \<Longrightarrow> length (EncodeRune r) = 1"
  by (simp_all add: EncodeRune_def Let_def RuneError_def)

text \<open>The width of a decoded rune bounds the rune, and never exceeds what is left of the string.\<close>

lemma DecodeRuneInString_cases:
  assumes "DecodeRuneInString s = (c, w)" and "s \<noteq> []"
  shows "w \<le> length s \<and> ((w = 1 \<and> (c < 0x80 \<or> c = RuneError)) \<or> (w = 2 \<and> c \<le> 0x7FF)
           \<or> (w = 3 \<and> c \<le> 0xFFFF) \<or> w = 4)"
proof -
  obtain c0 t where s: "s = c0 # t"
    using assms(2) by (cases s) auto
  have m32: "(of_char c0 :: nat) mod 32 * 64 + k mod 64 \<le> 0x7FF" for k :: nat
  proof -
    have "(of_char c0 :: nat) mod 32 \<le> 31" "k mod 64 \<le> 63" by simp_all
    then show ?thesis by linarith
  qed
  have m16: "(of_char c0 :: nat) mod 16 * 4096 + k mod 64 * 64 + j mod 64 \<le> 0xFFFF" for k j :: nat
  proof -
    have "(of_char c0 :: nat) mod 16 \<le> 15" "k mod 64 \<le> 63" "j mod 64 \<le> 63" by simp_all
    then show ?thesis by linarith
  qed
  show ?thesis
    using assms(1) unfolding s DecodeRuneInString_def Let_def
    by (auto split: if_splits simp: m32 m16 Suc_le_eq)
qed

lemma sanitizeRune_cases: "sanitizeRune U r = r \<or> sanitizeRune U r = 95"
  by (simp add: sanitizeRune_def)

lemma sanitizeRune_RuneError: "tables_ok U \<Longrightarrow> sanitizeRune U RuneError = 95"
  by (simp add: sanitizeRune_def tables_ok_def IsLetter_def IsDigit_def MaxLatin1_def RuneError_def)

lemma length_EncodeRune_sanitizeRune:
  assumes "tables_ok U" and "DecodeRuneInString s = (c, w)" and "s \<noteq> []"
  shows "length (EncodeRune (sanitizeRune U c)) \<le> w"
proof -
  from DecodeRuneInString_cases [OF assms(2,3)]
  consider "w = 1" "c < 0x80" | "w = 1" "c = RuneError" | "w = 2" "c \<le> 0x7FF"
    | "w = 3" "c \<le> 0xFFFF" | "w = 4"
    by blast
  then show ?thesis
  proof cases
    case 1
    with sanitizeRune_cases [of U c] have "sanitizeRune U c \<le> 0x7F" by auto
    with 1 show ?thesis by (simp add: length_EncodeRune(4))
  next
    case 2
    with assms(1) show ?thesis
      by (simp add: sanitizeRune_RuneError length_EncodeRune(4))
  next
    case 3
    with sanitizeRune_cases [of U c] have "sanitizeRune U c \<le> 0x7FF" by auto
    with 3 show ?thesis by (simp add: length_EncodeRune(3))
  next
    case 4
    with sanitizeRune_cases [of U c] have "sanitizeRune U c \<le> 0xFFFF" by auto
    with 4 show ?thesis by (simp add: length_EncodeRune(2))
  next
    case 5
    then show ?thesis by (simp add: length_EncodeRune(1))
  qed
qed

text \<open>Mapping never makes the name longer: a rune's image takes no more bytes than the rune.\<close>

lemma length_strings_Map_sanitizeRune:
  "tables_ok U \<Longrightarrow> length (strings_Map (sanitizeRune U) s) \<le> length s"
proof (induction s rule: length_induct)
  case (1 s)
  show ?case
  proof (cases "s = []")
    case True
    then show ?thesis by (simp add: strings_Map.simps)
  next
    case False
    obtain c w where d: "DecodeRuneInString s = (c, w)"
      by (cases "DecodeRuneInString s")
    from DecodeRuneInString_cases [OF d False] have w: "0 < w" "w \<le> length s"
      by auto
    with False have "length (drop w s) < length s" by simp
    with 1 have "length (strings_Map (sanitizeRune U) (drop w s)) \<le> length s - w"
      by fastforce
    moreover have "length (EncodeRune (sanitizeRune U c)) \<le> w"
      using length_EncodeRune_sanitizeRune [OF "1.prems" d False] .
    ultimately show ?thesis
      using False d w by (subst strings_Map.simps) simp
  qed
qed

text \<open>On a name of ASCII bytes the runes are the bytes.\<close>

lemma strings_Map_ascii:
  "list_all ascii s \<Longrightarrow>
   strings_Map f s = concat (map (\<lambda>c. EncodeRune (f (of_char c))) s)"
proof (induction s)
  case Nil
  then show ?case by (simp add: strings_Map.simps)
next
  case (Cons a s)
  then have "DecodeRuneInString (a # s) = (of_char a, 1)"
    by (simp add: DecodeRuneInString_def ascii_def)
  with Cons show ?case
    by (subst strings_Map.simps) simp
qed

lemma char_of_95: "char_of (95 :: nat) = CHR ''_''"
  by code_simp

lemma EncodeRune_sanitizeRune_ascii:
  "ascii c \<Longrightarrow> EncodeRune (sanitizeRune U (of_char c)) = [if alnum c then c else CHR ''_'']"
  by (auto simp add: EncodeRune_def sanitizeRune_def IsLetter_def IsDigit_def MaxLatin1_def
      alnum_def ascii_def Let_def char_of_95)

lemma strings_Map_sanitizeRune_ascii:
  assumes "list_all ascii s"
  shows "strings_Map (sanitizeRune U) s = map (\<lambda>c. if alnum c then c else CHR ''_'') s"
proof -
  have "concat (map (\<lambda>c. EncodeRune (sanitizeRune U (of_char c))) s)
      = map (\<lambda>c. if alnum c then c else CHR ''_'') s"
    using assms by (induction s) (simp_all add: EncodeRune_sanitizeRune_ascii)
  then show ?thesis
    using strings_Map_ascii [OF assms] by simp
qed

lemma of_char_le_255: "(of_char c :: nat) \<le> 255"
  using nat_of_char_less_256 [of c] by linarith

text \<open>
  \<open>sanitize\<close> on a non-empty name, with the two tests on \<open>s[0]\<close> spelled out. The index
  is in range because the mapped name is not empty, and after \<open>key_\<close> was prepended the
  first byte is \<open>k\<close>, so at most one prefix is added.
\<close>

lemma sanitize_unfold:
  "s \<noteq> [] \<Longrightarrow>
   sanitize U s =
     (let m = strings_Map (sanitizeRune U) (take labelKeySizeLimit s)
      in if 0x30 \<le> (of_char (hd m) :: nat) \<and> (of_char (hd m) :: nat) \<le> 0x39 then ''key_'' @ m
         else if hd m = CHR ''_'' then ''key'' @ m else m)"
  by (auto simp add: sanitize_def Let_def IsDigit_def MaxLatin1_def hd_conv_nth strings_Map_ne
      labelKeySizeLimit_def of_char_le_255)

lemma list_all_ident_sanitize:
  assumes "list_all ascii s"
  shows "list_all ident_char (sanitize U s)"
proof (cases "s = []")
  case True
  then show ?thesis by (simp add: sanitize_def)
next
  case False
  have t: "list_all ascii (take labelKeySizeLimit s)"
    using assms by (auto simp add: list_all_iff dest: in_set_takeD)
  have m: "list_all ident_char (strings_Map (sanitizeRune U) (take labelKeySizeLimit s))"
    unfolding strings_Map_sanitizeRune_ascii [OF t]
    by (auto simp add: list_all_iff ident_char_def)
  have k: "list_all ident_char ''key_''" "list_all ident_char ''key''"
    by (simp_all add: ident_char_def alnum_def)
  show ?thesis
    using m k by (simp add: sanitize_unfold [OF False] Let_def)
qed

lemma length_sanitize:
  assumes "tables_ok U"
  shows "length (sanitize U s) \<le> 104"
proof (cases "s = []")
  case True
  then show ?thesis by (simp add: sanitize_def)
next
  case False
  have "length (strings_Map (sanitizeRune U) (take labelKeySizeLimit s)) \<le> 100"
    using length_strings_Map_sanitizeRune [OF assms, of "take labelKeySizeLimit s"]
    by (simp add: labelKeySizeLimit_def)
  then show ?thesis
    by (simp add: sanitize_unfold [OF False] Let_def)
qed

section \<open>The collector, one call at a time\<close>

lemma update_absent: "map_of al k = None \<Longrightarrow> AList.update k v al = al @ [(k, v)]"
  by (induction al) (auto split: if_splits)

lemma onError_fields [simp]:
  "opts (onError c e) = opts c" "reg (onError c e) = reg c"
  "registerOnce (onError c e) = registerOnce c"
  "registeredHistograms (onError c e) = registeredHistograms c"
  "store (onError c e) = store c"
  by (simp_all add: onError_def split: option.split)

lemma ensureRegisteredOnce_fields [simp]:
  "opts (ensureRegisteredOnce c) = opts c" "reg (ensureRegisteredOnce c) = reg c"
  "registerOnce (ensureRegisteredOnce c)"
  "registeredHistograms (ensureRegisteredOnce c) = registeredHistograms c"
  "store (ensureRegisteredOnce c) = store c"
  by (simp_all add: ensureRegisteredOnce_def Let_def split: option.split)

lemma ExportSpan_urlName: "urlName (Name sd) \<Longrightarrow> ExportSpan U c sd = c"
  by (simp add: ExportSpan_def)

lemma ExportSpan_opts [simp]: "opts (ExportSpan U c sd) = opts c"
  by (simp add: ExportSpan_def getHistogram_def NewHistogram_def insert_histogram_def Observe_def
      Let_def split: option.split prod.split)

lemma ExportSpan_reg [simp]: "reg (ExportSpan U c sd) = reg c"
  by (simp add: ExportSpan_def getHistogram_def NewHistogram_def insert_histogram_def Observe_def
      Let_def split: option.split prod.split)

text \<open>What a call that is not filtered does to the map and to the store.\<close>

lemma ExportSpan_hit:
  assumes "\<not> urlName (Name sd)" and "lookup c (spanName U (Namespace (opts c)) sd) = Some a"
  shows "registeredHistograms (ExportSpan U c sd) = registeredHistograms c"
    and "store (ExportSpan U c sd)
           = (store c)[a := (store c ! a)\<lparr>observed := observed (store c ! a) @ [spanTimeSpanMillis sd]\<rparr>]"
  using assms by (simp_all add: ExportSpan_def getHistogram_def Observe_def Let_def)

lemma ExportSpan_miss:
  assumes "\<not> urlName (Name sd)" and "lookup c (spanName U (Namespace (opts c)) sd) = None"
  shows "registeredHistograms (ExportSpan U c sd)
           = registeredHistograms c @ [(spanName U (Namespace (opts c)) sd, length (store c))]"
    and "store (ExportSpan U c sd)
           = store c @ [\<lparr>Opts_Namespace = Namespace (opts c), Opts_Name = sanitize U (Name sd),
                          Opts_Help = sanitize U (Name sd), Opts_Buckets = Buckets,
                          observed = [spanTimeSpanMillis sd]\<rparr>]"
  using assms
  by (simp_all add: ExportSpan_def getHistogram_def NewHistogram_def insert_histogram_def
      Observe_def Let_def update_absent lookup_def)

lemma wf_collector_new: "wf_collector (newCollector o' r)"
  by (simp add: wf_collector_def newCollector_def)

lemma lookup_in_store:
  "wf_collector c \<Longrightarrow> lookup c k = Some a \<Longrightarrow> a < length (store c)"
  by (auto simp add: wf_collector_def lookup_def list_all_iff dest!: map_of_SomeD)

lemma wf_collector_ExportSpan:
  assumes "wf_collector c"
  shows "wf_collector (ExportSpan U c sd)"
proof (cases "urlName (Name sd)")
  case True
  with assms show ?thesis by (simp add: ExportSpan_urlName)
next
  case False
  show ?thesis
  proof (cases "lookup c (spanName U (Namespace (opts c)) sd)")
    case None
    then have "spanName U (Namespace (opts c)) sd \<notin> fst ` set (registeredHistograms c)"
      by (simp add: lookup_def map_of_eq_None_iff)
    moreover have "length (store c) \<notin> snd ` set (registeredHistograms c)"
      using assms by (auto simp add: wf_collector_def list_all_iff)
    ultimately show ?thesis
      using assms by (auto simp add: wf_collector_def ExportSpan_miss [OF False None] list_all_iff)
  next
    case (Some a)
    with assms show ?thesis
      by (simp add: wf_collector_def ExportSpan_hit [OF False Some])
  qed
qed

lemma exported_snoc: "exported U o' r (sds @ [sd]) = ExportSpan U (exported U o' r sds) sd"
  by (simp add: exported_def)

lemma wf_collector_exported: "wf_collector (exported U o' r sds)"
  by (induction sds rule: rev_induct)
     (simp_all add: exported_snoc wf_collector_ExportSpan, simp add: exported_def wf_collector_new)

lemma opts_exported [simp]: "opts (exported U o' r sds) = o'"
  by (induction sds rule: rev_induct) (simp_all add: exported_snoc, simp add: exported_def newCollector_def)

lemma reg_exported [simp]: "reg (exported U o' r sds) = r"
  by (induction sds rule: rev_induct) (simp_all add: exported_snoc, simp add: exported_def newCollector_def)

text \<open>The observations under every key after one call that is not filtered.\<close>

lemma observations_ExportSpan:
  assumes "wf_collector c" and "\<not> urlName (Name sd)"
  shows "observations (ExportSpan U c sd) k =
           (if k = spanName U (Namespace (opts c)) sd
            then observations c k @ [spanTimeSpanMillis sd] else observations c k)"
proof (cases "lookup c (spanName U (Namespace (opts c)) sd)")
  case None
  define sig where "sig = spanName U (Namespace (opts c)) sd"
  define c' where "c' = ExportSpan U c sd"
  define h where "h = \<lparr>Opts_Namespace = Namespace (opts c), Opts_Name = sanitize U (Name sd),
                          Opts_Help = sanitize U (Name sd), Opts_Buckets = Buckets,
                          observed = [spanTimeSpanMillis sd]\<rparr>"
  have rh: "registeredHistograms c' = registeredHistograms c @ [(sig, length (store c))]"
    and st: "store c' = store c @ [h]"
    using ExportSpan_miss [OF assms(2) None] by (simp_all add: c'_def sig_def h_def)
  have none: "map_of (registeredHistograms c) sig = None"
    using None by (simp add: lookup_def sig_def)
  have l: "lookup c' k = (if k = sig then Some (length (store c)) else lookup c k)" for k
    using none by (simp add: lookup_def rh map_add_def split: option.split)
  show ?thesis
  proof (cases "k = sig")
    case True
    moreover have "lookup c sig = None"
      using None by (simp add: sig_def)
    ultimately show ?thesis
      by (simp add: observations_def l st h_def flip: c'_def sig_def)
  next
    case False
    show ?thesis
    proof (cases "lookup c k")
      case None
      with False show ?thesis
        by (simp add: observations_def l flip: c'_def sig_def)
    next
      case (Some a)
      then have "a < length (store c)"
        using lookup_in_store [OF assms(1)] by simp
      with False Some show ?thesis
        by (simp add: observations_def l st nth_append flip: c'_def sig_def)
    qed
  qed
next
  case (Some a)
  define sig where "sig = spanName U (Namespace (opts c)) sd"
  define c' where "c' = ExportSpan U c sd"
  have a: "a < length (store c)"
    using lookup_in_store [OF assms(1) Some] .
  have rh: "registeredHistograms c' = registeredHistograms c"
    and st: "store c' = (store c)[a := (store c ! a)\<lparr>observed := observed (store c ! a) @ [spanTimeSpanMillis sd]\<rparr>]"
    using ExportSpan_hit [OF assms(2) Some] by (simp_all add: c'_def)
  have l: "lookup c' k = lookup c k" for k
    by (simp add: lookup_def rh)
  have inj: "k = sig" if "lookup c k = Some a"
  proof -
    have "(k, a) \<in> set (registeredHistograms c)" "(sig, a) \<in> set (registeredHistograms c)"
      using that Some by (simp_all add: lookup_def map_of_SomeD sig_def)
    moreover have "inj_on snd (set (registeredHistograms c))"
      using assms(1) by (simp add: wf_collector_def distinct_map)
    ultimately show ?thesis
      using inj_onD [of snd "set (registeredHistograms c)" "(k, a)" "(sig, a)"]
      by simp
  qed
  show ?thesis
  proof (cases "k = sig")
    case True
    with Some a show ?thesis
      by (simp add: observations_def l st flip: c'_def sig_def)
  next
    case False
    show ?thesis
    proof (cases "lookup c k")
      case None
      with False show ?thesis
        by (simp add: observations_def l flip: c'_def sig_def)
    next
      case (Some b)
      with inj False have "b \<noteq> a" by auto
      with False Some show ?thesis
        by (simp add: observations_def l st flip: c'_def sig_def)
    qed
  qed
qed

section \<open>Properties of the sanitizer\<close>

text \<open>
  C7, as the code has it. A name made of ASCII bytes only is sanitized to characters of
  \<open>[A-Za-z0-9_]\<close>. In general a rune that is neither a letter nor a decimal digit
  becomes an underscore and a rune that is one is kept, a Unicode letter beyond ASCII
  included. On a non-empty name, the mapped first 100 bytes get \<open>key_\<close> in front when
  they start with a digit and \<open>key\<close> when they start with an underscore, so that
  \<open>123abc\<close> becomes \<open>key_123abc\<close> and \<open>_abc\<close> becomes \<open>key_abc\<close>.
\<close>

theorem C7_sanitize_ascii_identifier:
  "(list_all ascii s \<longrightarrow> list_all ident_char (sanitize U s))
   \<and> (\<not> IsLetter U r \<and> \<not> IsDigit U r \<longrightarrow> sanitizeRune U r = of_char CHR ''_'')
   \<and> (IsLetter U r \<or> IsDigit U r \<longrightarrow> sanitizeRune U r = r)
   \<and> (s \<noteq> [] \<longrightarrow>
        sanitize U s =
          (let m = strings_Map (sanitizeRune U) (take labelKeySizeLimit s)
           in if 0x30 \<le> (of_char (hd m) :: nat) \<and> (of_char (hd m) :: nat) \<le> 0x39
              then ''key_'' @ m
              else if hd m = CHR ''_'' then ''key'' @ m else m))
   \<and> sanitize U ''123abc'' = ''key_123abc'' \<and> sanitize U ''_abc'' = ''key_abc''"
proof -
  have "sanitize U ''123abc'' = ''key_123abc''" "sanitize U ''_abc'' = ''key_abc''"
    by code_simp+
  then show ?thesis
    using list_all_ident_sanitize [of s U] sanitize_unfold [of s U]
    by (simp add: sanitizeRune_def)
qed

theorem C7_sanitize_ascii_identifier_witness:
  "list_all ascii ''GET /foo'' \<and> list_all ident_char (sanitize Latin1 ''GET /foo'')
   \<and> \<not> IsLetter Latin1 0x2F \<and> \<not> IsDigit Latin1 0x2F
   \<and> sanitizeRune Latin1 0x2F = of_char CHR ''_''
   \<and> IsLetter Latin1 0x47 \<and> sanitizeRune Latin1 0x47 = 0x47
   \<and> ''GET /foo'' \<noteq> [] \<and> sanitize Latin1 ''GET /foo'' = ''GET__foo''"
proof -
  have h: "list_all ascii ''GET /foo''" "\<not> IsLetter Latin1 0x2F \<and> \<not> IsDigit Latin1 0x2F"
    "IsLetter Latin1 0x47"
    by code_simp+
  have e: "sanitize Latin1 ''GET /foo'' = ''GET__foo''"
    by code_simp
  from C7_sanitize_ascii_identifier [of "''GET /foo''" Latin1 "0x2F"]
    C7_sanitize_ascii_identifier [of "''GET /foo''" Latin1 "0x47"] h e
  show ?thesis
    by simp
qed

text \<open>
  C7 as stated fails on a name with a letter beyond ASCII: the two bytes of U+00E9
  (e with acute accent) decode to a rune that \<open>unicode.IsLetter\<close> accepts, so the
  name comes back unchanged, and its bytes are not in \<open>[A-Za-z0-9_]\<close>.
\<close>

theorem C7_sanitize_keeps_unicode_letter:
  "sanitize Latin1 [CHR 0xC3, CHR 0xA9] = [CHR 0xC3, CHR 0xA9]
   \<and> \<not> list_all ident_char (sanitize Latin1 [CHR 0xC3, CHR 0xA9])"
  by code_simp

text \<open>
  C10: the result of \<open>sanitize\<close> has at most 104 bytes. The name is cut to its first
  100 bytes before it is mapped, mapping does not lengthen it, and the prefix of at most
  four bytes comes last; a name of 100 digits reaches 104, past the limit of 100.
\<close>

theorem C10_sanitize_length_at_most_104:
  assumes "tables_ok U"
  shows "length (sanitize U s) \<le> 104
    \<and> length (strings_Map (sanitizeRune U) (take labelKeySizeLimit s)) \<le> 100
    \<and> length (sanitize U (replicate 100 CHR ''1'')) = 104"
proof -
  have "length (sanitize U (replicate 100 CHR ''1'')) = 104"
    by code_simp
  moreover have "length (strings_Map (sanitizeRune U) (take labelKeySizeLimit s)) \<le> 100"
    using length_strings_Map_sanitizeRune [OF assms, of "take labelKeySizeLimit s"]
    by (simp add: labelKeySizeLimit_def)
  ultimately show ?thesis
    using length_sanitize [OF assms, of s] by simp
qed

theorem C10_sanitize_length_at_most_104_witness:
  "tables_ok Latin1 \<and> length (sanitize Latin1 (replicate 101 CHR ''_'')) \<le> 104
   \<and> length (sanitize Latin1 (replicate 100 CHR ''1'')) = 104"
proof -
  have h: "tables_ok Latin1"
    by (simp add: tables_ok_def Latin1_def)
  from C10_sanitize_length_at_most_104 [OF h, of "replicate 101 CHR ''_''"] h
  show ?thesis
    by simp
qed

section \<open>Durations, and what a call observes\<close>

lemma quo_nonneg: "0 \<le> a \<Longrightarrow> quo a Millisecond = a div 1000000"
  by (simp add: quo_def Millisecond_def sgn_if)

lemma quo_neg: "a < 0 \<Longrightarrow> quo a Millisecond = - ((- a) div 1000000)"
  by (simp add: quo_def Millisecond_def sgn_if)

lemma Time_Sub_nonneg: "u \<le> t \<Longrightarrow> 0 \<le> Time_Sub t u"
  by (simp add: Time_Sub_def Let_def maxDuration_def minDuration_def)

lemma Time_Sub_neg: "t < u \<Longrightarrow> Time_Sub t u < 0"
  by (simp add: Time_Sub_def Let_def maxDuration_def minDuration_def)

lemma Time_Sub_exact:
  "minDuration \<le> t - u \<Longrightarrow> t - u \<le> maxDuration \<Longrightarrow> Time_Sub t u = t - u"
  by (simp add: Time_Sub_def Let_def)

lemma Time_Sub_range: "minDuration \<le> Time_Sub t u \<and> Time_Sub t u \<le> maxDuration"
  by (simp add: Time_Sub_def Let_def maxDuration_def minDuration_def)

lemma spanTimeSpanMillis_exact: "\<bar>spanTimeSpanMillis sd\<bar> < 2 ^ 53"
proof -
  define d where "d = Time_Sub (EndTime sd) (StartTime sd)"
  have r: "- (2 ^ 63) \<le> d" "d \<le> 2 ^ 63 - 1"
    using Time_Sub_range [of "EndTime sd" "StartTime sd"]
    by (simp_all add: d_def maxDuration_def minDuration_def)
  have "\<bar>quo d Millisecond\<bar> = \<bar>d\<bar> div 1000000"
    by (simp add: quo_def Millisecond_def abs_mult sgn_if)
  also have "\<dots> \<le> (2 ^ 63) div 1000000"
    using r by (intro zdiv_mono1) simp_all
  also have "\<dots> < (2 ^ 53 :: int)"
    by simp
  finally show ?thesis
    by (simp add: spanTimeSpanMillis_def d_def)
qed

lemma spanTimeSpanMillis_forward:
  assumes "StartTime sd \<le> EndTime sd"
  shows "spanTimeSpanMillis sd = Time_Sub (EndTime sd) (StartTime sd) div 1000000"
  using Time_Sub_nonneg [OF assms] by (simp add: spanTimeSpanMillis_def quo_nonneg)

lemma spanTimeSpanMillis_backward:
  assumes "EndTime sd < StartTime sd"
  shows "spanTimeSpanMillis sd = - ((- Time_Sub (EndTime sd) (StartTime sd)) div 1000000)"
  using Time_Sub_neg [OF assms] by (simp add: spanTimeSpanMillis_def quo_neg)

lemma floor_milliseconds: "\<lfloor>real_of_int d / 1000000\<rfloor> = d div 1000000"
  using floor_divide_of_int_eq [of d 1000000, where ?'a = real] by simp

lemma observations_exported:
  "\<not> urlName (Name sd) \<Longrightarrow>
   observations (ExportSpan U (exported U o' r sds) sd) (spanName U (Namespace o') sd)
     = observations (exported U o' r sds) (spanName U (Namespace o') sd) @ [spanTimeSpanMillis sd]"
  using observations_ExportSpan [where c = "exported U o' r sds" and sd = sd and U = U,
      OF wf_collector_exported]
  by simp

lemma Converter_ExportSpan_value: "snd (snd (Converter_ExportSpan U cv sd)) = spanTimeSpanMillis sd"
  by (simp add: Converter_ExportSpan_def split: prod.split)

lemma Time_Sub_saturated: "maxDuration < t - u \<Longrightarrow> Time_Sub t u = maxDuration"
  by (simp add: Time_Sub_def Let_def)

text \<open>
  C5, as the code has it. For a span that does not end before it starts and whose
  duration fits a \<open>Duration\<close> (at most \<open>2 ^ 63 - 1\<close> nanoseconds, about 292 years), the
  value observed is the floor of the difference of the two instants in nanoseconds over
  \<open>10\<^sup>6\<close>; 1500 microseconds give 1. For a longer span \<open>Time.Sub\<close> returns the largest
  duration, and the value observed is the floor of that over \<open>10\<^sup>6\<close>, 9223372036854.
  The value is what the exporter's \<open>ExportSpan\<close> appends to the histogram of the span's name.
\<close>

theorem C5_observation_is_floor_of_duration:
  assumes "StartTime sd \<le> EndTime sd"
  shows "(EndTime sd - StartTime sd \<le> maxDuration \<longrightarrow>
           spanTimeSpanMillis sd = \<lfloor>real_of_int (EndTime sd - StartTime sd) / 1000000\<rfloor>)
    \<and> (maxDuration < EndTime sd - StartTime sd \<longrightarrow>
           spanTimeSpanMillis sd = \<lfloor>real_of_int maxDuration / 1000000\<rfloor>
           \<and> spanTimeSpanMillis sd = 9223372036854)
    \<and> (EndTime sd - StartTime sd = 1500000 \<longrightarrow> spanTimeSpanMillis sd = 1)
    \<and> (\<not> urlName (Name sd) \<longrightarrow>
         observations (ExportSpan U (exported U o' r sds) sd) (spanName U (Namespace o') sd)
           = observations (exported U o' r sds) (spanName U (Namespace o') sd)
               @ [spanTimeSpanMillis sd])"
proof -
  have f: "spanTimeSpanMillis sd = Time_Sub (EndTime sd) (StartTime sd) div 1000000"
    using spanTimeSpanMillis_forward [OF assms] .
  have e: "spanTimeSpanMillis sd = (EndTime sd - StartTime sd) div 1000000"
    if "EndTime sd - StartTime sd \<le> maxDuration"
    using that assms Time_Sub_exact [of "EndTime sd" "StartTime sd"]
    by (simp add: f minDuration_def)
  have s: "spanTimeSpanMillis sd = maxDuration div 1000000"
    if "maxDuration < EndTime sd - StartTime sd"
    using Time_Sub_saturated [OF that] by (simp add: f)
  have v: "maxDuration div 1000000 = 9223372036854"
    by (simp add: maxDuration_def)
  have m: "spanTimeSpanMillis sd = 1" if "EndTime sd - StartTime sd = 1500000"
    using that e by (simp add: maxDuration_def)
  show ?thesis
    unfolding floor_milliseconds
    using e s v m observations_exported [of sd U o' r sds]
    by simp
qed

theorem C5_observation_is_floor_of_duration_witness:
  "StartTime \<lparr>Name = ''checkout'', StartTime = 0, EndTime = 1500000\<rparr>
     \<le> EndTime \<lparr>Name = ''checkout'', StartTime = 0, EndTime = 1500000\<rparr>
   \<and> EndTime \<lparr>Name = ''checkout'', StartTime = 0, EndTime = 1500000\<rparr>
       - StartTime \<lparr>Name = ''checkout'', StartTime = 0, EndTime = 1500000\<rparr> \<le> maxDuration
   \<and> spanTimeSpanMillis \<lparr>Name = ''checkout'', StartTime = 0, EndTime = 1500000\<rparr> = 1
   \<and> \<not> urlName (Name \<lparr>Name = ''checkout'', StartTime = 0, EndTime = 1500000\<rparr>)
   \<and> observations
        (ExportSpan Latin1 (exported Latin1 \<lparr>Namespace = ''svc'', OnError = None\<rparr> None [])
           \<lparr>Name = ''checkout'', StartTime = 0, EndTime = 1500000\<rparr>) ''svc_checkout'' = [1]
   \<and> StartTime \<lparr>Name = ''checkout'', StartTime = - 62135596800000000000,
          EndTime = 1700000000000000000\<rparr>
       \<le> EndTime \<lparr>Name = ''checkout'', StartTime = - 62135596800000000000,
          EndTime = 1700000000000000000\<rparr>
   \<and> maxDuration
       < EndTime \<lparr>Name = ''checkout'', StartTime = - 62135596800000000000,
          EndTime = 1700000000000000000\<rparr>
         - StartTime \<lparr>Name = ''checkout'', StartTime = - 62135596800000000000,
          EndTime = 1700000000000000000\<rparr>
   \<and> spanTimeSpanMillis \<lparr>Name = ''checkout'', StartTime = - 62135596800000000000,
          EndTime = 1700000000000000000\<rparr> = 9223372036854"
proof -
  have h: "StartTime \<lparr>Name = ''checkout'', StartTime = 0, EndTime = 1500000\<rparr>
     \<le> EndTime \<lparr>Name = ''checkout'', StartTime = 0, EndTime = 1500000\<rparr>"
    "StartTime \<lparr>Name = ''checkout'', StartTime = - 62135596800000000000,
          EndTime = 1700000000000000000\<rparr>
       \<le> EndTime \<lparr>Name = ''checkout'', StartTime = - 62135596800000000000,
          EndTime = 1700000000000000000\<rparr>"
    by simp_all
  have b: "(1500000 :: int) \<le> maxDuration" "maxDuration < 1700000000000000000 + 62135596800000000000"
    by (simp_all add: maxDuration_def)
  have e: "spanName Latin1 ''svc'' \<lparr>Name = ''checkout'', StartTime = 0, EndTime = 1500000\<rparr> = ''svc_checkout''"
    "observations (exported Latin1 \<lparr>Namespace = ''svc'', OnError = None\<rparr> None []) ''svc_checkout'' = []"
    "\<not> urlName ''checkout''"
    by code_simp+
  from C5_observation_is_floor_of_duration [OF h(1), of Latin1 "\<lparr>Namespace = ''svc'', OnError = None\<rparr>" None "[]"]
    C5_observation_is_floor_of_duration [OF h(2), of Latin1 "\<lparr>Namespace = ''svc'', OnError = None\<rparr>" None "[]"] e h b
  show ?thesis
    by simp
qed

text \<open>
  C5 as stated fails on a span whose \<open>StartTime\<close> was never set: from Go's zero time
  (year 1, 62135596800 seconds before 1970) to an \<open>EndTime\<close> in 2023 there are
  63835596800000 whole milliseconds, and the histogram gets 9223372036854.
\<close>

theorem C5_long_span_saturates:
  "StartTime \<lparr>Name = ''checkout'', StartTime = - 62135596800000000000,
       EndTime = 1700000000000000000\<rparr>
     \<le> EndTime \<lparr>Name = ''checkout'', StartTime = - 62135596800000000000,
       EndTime = 1700000000000000000\<rparr>
   \<and> map observed
        (Collect_histograms
           (ExportSpan Latin1 (newCollector \<lparr>Namespace = ''svc'', OnError = None\<rparr> None)
              \<lparr>Name = ''checkout'', StartTime = - 62135596800000000000,
                 EndTime = 1700000000000000000\<rparr>))
       = [[9223372036854]]
   \<and> \<lfloor>real_of_int (EndTime \<lparr>Name = ''checkout'', StartTime = - 62135596800000000000,
                          EndTime = 1700000000000000000\<rparr>
                      - StartTime \<lparr>Name = ''checkout'', StartTime = - 62135596800000000000,
                          EndTime = 1700000000000000000\<rparr>) / 1000000\<rfloor>
       = 63835596800000"
proof -
  have "map observed
        (Collect_histograms
           (ExportSpan Latin1 (newCollector \<lparr>Namespace = ''svc'', OnError = None\<rparr> None)
              \<lparr>Name = ''checkout'', StartTime = - 62135596800000000000,
                 EndTime = 1700000000000000000\<rparr>))
       = [[9223372036854]]"
    by code_simp
  then show ?thesis
    unfolding floor_milliseconds by simp
qed

text \<open>
  C1, as the code has it. For a span that ends before it starts, nothing is clamped and
  nothing is rejected: the value observed is the negative duration over \<open>10\<^sup>6\<close>,
  rounded towards zero. It is never positive, and it is zero exactly when the span ends
  less than a millisecond before it starts.
\<close>

theorem C1_negative_duration_not_clamped:
  assumes "EndTime sd < StartTime sd"
  shows "spanTimeSpanMillis sd = - \<lfloor>real_of_int (- Time_Sub (EndTime sd) (StartTime sd)) / 1000000\<rfloor>
    \<and> spanTimeSpanMillis sd \<le> 0
    \<and> (spanTimeSpanMillis sd = 0 \<longleftrightarrow> StartTime sd - EndTime sd < 1000000)
    \<and> (\<not> urlName (Name sd) \<longrightarrow>
         observations (ExportSpan U (exported U o' r sds) sd) (spanName U (Namespace o') sd)
           = observations (exported U o' r sds) (spanName U (Namespace o') sd)
               @ [spanTimeSpanMillis sd])
    \<and> snd (snd (Converter_ExportSpan U cv sd)) = spanTimeSpanMillis sd"
proof -
  define d where "d = - Time_Sub (EndTime sd) (StartTime sd)"
  have b: "spanTimeSpanMillis sd = - (d div 1000000)"
    using spanTimeSpanMillis_backward [OF assms] by (simp add: d_def)
  have d: "0 < d"
    using Time_Sub_neg [OF assms] by (simp add: d_def)
  have z: "d < 1000000 \<longleftrightarrow> StartTime sd - EndTime sd < 1000000"
    using assms by (auto simp add: d_def Time_Sub_def Let_def maxDuration_def minDuration_def)
  have "0 \<le> d div 1000000"
    using d by (simp add: pos_imp_zdiv_nonneg_iff)
  moreover have "d div 1000000 = 0 \<longleftrightarrow> d < 1000000"
    using d by (simp add: div_pos_pos_trivial zdiv_eq_0_iff)
  ultimately show ?thesis
    unfolding floor_milliseconds
    using b z observations_exported [of sd U o' r sds] Converter_ExportSpan_value [of U cv sd]
    by (simp flip: d_def)
qed


theorem C1_negative_duration_not_clamped_witness:
  "EndTime \<lparr>Name = ''checkout'', StartTime = 5000000, EndTime = 0\<rparr>
     < StartTime \<lparr>Name = ''checkout'', StartTime = 5000000, EndTime = 0\<rparr>
   \<and> spanTimeSpanMillis \<lparr>Name = ''checkout'', StartTime = 5000000, EndTime = 0\<rparr> = - 5
   \<and> observations
        (ExportSpan Latin1 (exported Latin1 \<lparr>Namespace = ''svc'', OnError = None\<rparr> None [])
           \<lparr>Name = ''checkout'', StartTime = 5000000, EndTime = 0\<rparr>) ''svc_checkout'' = [- 5]"
proof -
  have h: "EndTime \<lparr>Name = ''checkout'', StartTime = 5000000, EndTime = 0\<rparr>
     < StartTime \<lparr>Name = ''checkout'', StartTime = 5000000, EndTime = 0\<rparr>"
    by simp
  have e: "spanName Latin1 ''svc'' \<lparr>Name = ''checkout'', StartTime = 5000000, EndTime = 0\<rparr> = ''svc_checkout''"
    "observations (exported Latin1 \<lparr>Namespace = ''svc'', OnError = None\<rparr> None []) ''svc_checkout'' = []"
    "spanTimeSpanMillis \<lparr>Name = ''checkout'', StartTime = 5000000, EndTime = 0\<rparr> = - 5"
    "\<not> urlName ''checkout''"
    by code_simp+
  from C1_negative_duration_not_clamped [OF h, of Latin1 "\<lparr>Namespace = ''svc'', OnError = None\<rparr>" None "[]" "NewConverter ''svc''"] e h
  show ?thesis
    by simp
qed

text \<open>
  C1 as stated fails: a span that ends 5 milliseconds before it starts puts the
  observation \<open>-5\<close> into its histogram, not \<open>0\<close>.
\<close>

theorem C1_negative_observation_recorded:
  "map observed
     (Collect_histograms
        (ExportSpan Latin1 (newCollector \<lparr>Namespace = ''svc'', OnError = None\<rparr> None)
           \<lparr>Name = ''checkout'', StartTime = 5000000, EndTime = 0\<rparr>))
   = [[- 5]]"
  by code_simp

lemma lookup_ExportSpan:
  assumes "\<not> urlName (Name sd)"
  shows "lookup (ExportSpan U c sd) (spanName U (Namespace (opts c)) sd) \<noteq> None"
proof (cases "lookup c (spanName U (Namespace (opts c)) sd)")
  case None
  then show ?thesis
    by (simp add: lookup_def ExportSpan_miss [OF assms None])
next
  case (Some a)
  then show ?thesis
    by (simp add: lookup_def ExportSpan_hit [OF assms Some])
qed

lemma store_length_ExportSpan:
  "length (store (ExportSpan U c sd)) =
     length (store c)
       + (if \<not> urlName (Name sd) \<and> lookup c (spanName U (Namespace (opts c)) sd) = None
          then 1 else 0)"
proof (cases "urlName (Name sd)")
  case True
  then show ?thesis by (simp add: ExportSpan_urlName)
next
  case False
  then show ?thesis
    by (cases "lookup c (spanName U (Namespace (opts c)) sd)")
       (simp_all add: ExportSpan_miss ExportSpan_hit)
qed

lemma urlName_empty: "\<not> urlName []"
  by (simp add: urlName_def HasPrefix_def)

text \<open>
  C8, as the code has it. \<open>sanitize\<close> returns the empty name for the empty name, and
  \<open>ExportSpan\<close> does not drop such a span: the empty name is not a path, its key is the
  namespace followed by an underscore (the empty key without a namespace), after the
  call a histogram is registered under that key, and the span's duration is appended to
  the observations under it.
\<close>

theorem C8_empty_name_recorded:
  "sanitize U [] = []
   \<and> (Name sd = [] \<longrightarrow>
        \<not> urlName (Name sd)
        \<and> spanName U (Namespace o') sd = (if Namespace o' \<noteq> [] then Namespace o' @ ''_'' else [])
        \<and> lookup (ExportSpan U (exported U o' r sds) sd) (spanName U (Namespace o') sd) \<noteq> None
        \<and> observations (ExportSpan U (exported U o' r sds) sd) (spanName U (Namespace o') sd)
             = observations (exported U o' r sds) (spanName U (Namespace o') sd)
                 @ [spanTimeSpanMillis sd])"
proof -
  have s: "sanitize U [] = []"
    by (simp add: sanitize_def)
  have "spanName U (Namespace o') sd = (if Namespace o' \<noteq> [] then Namespace o' @ ''_'' else [])"
    if "Name sd = []"
    using that s by (simp add: spanName_def)
  moreover have "lookup (ExportSpan U (exported U o' r sds) sd) (spanName U (Namespace o') sd) \<noteq> None"
    if "Name sd = []"
    using that lookup_ExportSpan [of sd U "exported U o' r sds"] by (simp add: urlName_empty)
  moreover have "\<not> urlName (Name sd)" if "Name sd = []"
    using that by (simp add: urlName_empty)
  ultimately show ?thesis
    using s observations_exported [of sd U o' r sds] by blast
qed

theorem C8_empty_name_recorded_witness:
  "Name \<lparr>Name = [], StartTime = 0, EndTime = 1500000\<rparr> = []
   \<and> observations
        (ExportSpan Latin1 (exported Latin1 \<lparr>Namespace = ''svc'', OnError = None\<rparr> None [])
           \<lparr>Name = [], StartTime = 0, EndTime = 1500000\<rparr>) ''svc_'' = [1]"
proof -
  have e: "spanName Latin1 ''svc'' \<lparr>Name = [], StartTime = 0, EndTime = 1500000\<rparr> = ''svc_''"
    "observations (exported Latin1 \<lparr>Namespace = ''svc'', OnError = None\<rparr> None []) ''svc_'' = []"
    "spanTimeSpanMillis \<lparr>Name = [], StartTime = 0, EndTime = 1500000\<rparr> = 1"
    by code_simp+
  from C8_empty_name_recorded [of Latin1 "\<lparr>Name = [], StartTime = 0, EndTime = 1500000\<rparr>"
      "\<lparr>Namespace = ''svc'', OnError = None\<rparr>" None "[]"] e
  show ?thesis
    by simp
qed

text \<open>
  C8 as stated fails: exporting a span with the empty name to a new collector leaves one
  histogram, with an empty metric name and one observation.
\<close>

theorem C8_empty_name_creates_histogram:
  "Collect_histograms
     (ExportSpan Latin1 (newCollector \<lparr>Namespace = ''svc'', OnError = None\<rparr> None)
        \<lparr>Name = [], StartTime = 0, EndTime = 1500000\<rparr>)
   = [\<lparr>Opts_Namespace = ''svc'', Opts_Name = [], Opts_Help = [],
        Opts_Buckets = [1, 10, 50, 100, 250, 500, 1000, 10000, 60000, 120000],
        observed = [1]\<rparr>]"
  by code_simp

section \<open>One histogram per name\<close>

lemma spanName_cong: "Name sd1 = Name sd2 \<Longrightarrow> spanName U ns sd1 = spanName U ns sd2"
  by (simp add: spanName_def)

lemma keys_ExportSpan:
  "fst ` set (registeredHistograms (ExportSpan U c sd)) =
     (if urlName (Name sd) then fst ` set (registeredHistograms c)
      else insert (spanName U (Namespace (opts c)) sd) (fst ` set (registeredHistograms c)))"
proof (cases "urlName (Name sd)")
  case True
  then show ?thesis by (simp add: ExportSpan_urlName)
next
  case False
  show ?thesis
  proof (cases "lookup c (spanName U (Namespace (opts c)) sd)")
    case None
    with False show ?thesis
      by (simp add: ExportSpan_miss [OF False None])
  next
    case (Some a)
    then have "(spanName U (Namespace (opts c)) sd, a) \<in> set (registeredHistograms c)"
      by (simp add: lookup_def map_of_SomeD)
    then have "spanName U (Namespace (opts c)) sd \<in> fst ` set (registeredHistograms c)"
      by force
    with False show ?thesis
      by (auto simp add: ExportSpan_hit [OF False Some])
  qed
qed

lemma keys_exported:
  "fst ` set (registeredHistograms (exported U o' r sds)) =
     spanName U (Namespace o') ` {sd \<in> set sds. \<not> urlName (Name sd)}"
proof (induction sds rule: rev_induct)
  case Nil
  show ?case by (simp add: exported_def newCollector_def)
next
  case (snoc sd sds)
  then show ?case
    by (auto simp add: exported_snoc keys_ExportSpan)
qed

lemma length_Collect_histograms:
  "wf_collector c \<Longrightarrow> length (Collect_histograms c) = card (fst ` set (registeredHistograms c))"
proof -
  assume "wf_collector c"
  then have "distinct (map fst (registeredHistograms c))"
    by (simp add: wf_collector_def)
  then have "card (set (map fst (registeredHistograms c))) = length (map fst (registeredHistograms c))"
    by (rule distinct_card)
  then show ?thesis
    by (simp add: Collect_histograms_def)
qed

lemma length_Collect_exported:
  "length (Collect_histograms (exported U o' r sds)) =
     card (spanName U (Namespace o') ` {sd \<in> set sds. \<not> urlName (Name sd)})"
  by (simp add: length_Collect_histograms [OF wf_collector_exported] keys_exported)

lemma Converter_ExportSpan_again:
  assumes "Name sd1 = Name sd2"
  shows "fst (Converter_ExportSpan U (fst (Converter_ExportSpan U cv sd1)) sd2)
           = fst (Converter_ExportSpan U cv sd1)"
proof -
  have "spanName U ns sd2 = spanName U ns sd1" for ns
    using spanName_cong [OF assms] by simp
  then show ?thesis
    by (simp add: Converter_ExportSpan_def getMeasure_def Let_def update_conv'
        split: option.split prod.split)
qed

text \<open>
  The converter's first call for a name: the measure it returns is stored under the
  name's key; on a miss exactly one measure and one view are added, on a hit nothing
  changes.
\<close>

lemma Converter_first_call:
  "map_of (measures (fst (Converter_ExportSpan U cv sd))) (spanName U (conv_Namespace cv) sd)
     = Some (fst (snd (Converter_ExportSpan U cv sd)))
   \<and> (map_of (measures cv) (spanName U (conv_Namespace cv) sd) = None \<longrightarrow>
        measures (fst (Converter_ExportSpan U cv sd))
          = measures cv @ [(spanName U (conv_Namespace cv) sd,
               \<lparr>measure_name = ''span length'',
                 measure_description = ''The span length in milliseconds'',
                 measure_unit = ''ms''\<rparr>)]
        \<and> views (fst (Converter_ExportSpan U cv sd))
          = views cv @ [\<lparr>View_Name = spanName U (conv_Namespace cv) sd,
               View_Description = spanName U (conv_Namespace cv) sd,
               View_Measure = \<lparr>measure_name = ''span length'',
                 measure_description = ''The span length in milliseconds'',
                 measure_unit = ''ms''\<rparr>,
               Aggregation = Distribution\<rparr>])
   \<and> (map_of (measures cv) (spanName U (conv_Namespace cv) sd) \<noteq> None \<longrightarrow>
        fst (Converter_ExportSpan U cv sd) = cv)"
  by (auto simp add: Converter_ExportSpan_def getMeasure_def Let_def update_conv' update_absent
      map_add_def split: option.split prod.split)

lemma Converter_second_call:
  assumes "Name sd1 = Name sd2"
  shows "fst (snd (Converter_ExportSpan U (fst (Converter_ExportSpan U cv sd1)) sd2))
           = fst (snd (Converter_ExportSpan U cv sd1))"
proof -
  have "spanName U ns sd2 = spanName U ns sd1" for ns
    using spanName_cong [OF assms] by simp
  then show ?thesis
    by (simp add: Converter_ExportSpan_def getMeasure_def Let_def update_conv'
        split: option.split prod.split)
qed

lemma Converter_new_two_calls:
  assumes "Name sd1 = Name sd2"
  shows "measures (fst (Converter_ExportSpan U (fst (Converter_ExportSpan U (NewConverter ns) sd1)) sd2))
      = [(spanName U ns sd1,
          \<lparr>measure_name = ''span length'',
            measure_description = ''The span length in milliseconds'', measure_unit = ''ms''\<rparr>)]
    \<and> views (fst (Converter_ExportSpan U (fst (Converter_ExportSpan U (NewConverter ns) sd1)) sd2))
      = [\<lparr>View_Name = spanName U ns sd1, View_Description = spanName U ns sd1,
           View_Measure = \<lparr>measure_name = ''span length'',
             measure_description = ''The span length in milliseconds'', measure_unit = ''ms''\<rparr>,
           Aggregation = Distribution\<rparr>]"
proof -
  have "spanName U ns' sd2 = spanName U ns' sd1" for ns'
    using spanName_cong [OF assms] by simp
  then show ?thesis
    by (simp add: Converter_ExportSpan_def getMeasure_def Let_def NewConverter_def)
qed

text \<open>
  C3: two spans of one name, exported one after the other, share one histogram. The
  second call creates no histogram and leaves the map as the first call left it, both
  durations are appended to the observations under the name's key, and \<open>Collect\<close> sends
  one histogram per distinct key, hence one when the two calls are all there was. (A
  path-like name is filtered instead, see C2.) In the converter the first call stores
  the measure it returns under the name's key, adding one measure and one view when the
  key was absent and nothing otherwise; the second call returns that measure and changes
  nothing, so a new converter holds one measure and one view after the two calls.
\<close>

theorem C3_same_name_one_histogram:
  assumes "Name sd1 = Name sd2" and "\<not> urlName (Name sd1)"
  shows "length (store (ExportSpan U (ExportSpan U (exported U o' r sds) sd1) sd2))
           = length (store (ExportSpan U (exported U o' r sds) sd1))
    \<and> registeredHistograms (ExportSpan U (ExportSpan U (exported U o' r sds) sd1) sd2)
           = registeredHistograms (ExportSpan U (exported U o' r sds) sd1)
    \<and> lookup (ExportSpan U (exported U o' r sds) sd1) (spanName U (Namespace o') sd1) \<noteq> None
    \<and> observations (ExportSpan U (ExportSpan U (exported U o' r sds) sd1) sd2)
           (spanName U (Namespace o') sd1)
         = observations (exported U o' r sds) (spanName U (Namespace o') sd1)
             @ [spanTimeSpanMillis sd1, spanTimeSpanMillis sd2]
    \<and> length (Collect_histograms (ExportSpan U (ExportSpan U (exported U o' r sds) sd1) sd2))
         = card (spanName U (Namespace o') ` {sd \<in> set (sds @ [sd1, sd2]). \<not> urlName (Name sd)})
    \<and> length (Collect_histograms (ExportSpan U (ExportSpan U (newCollector o' r) sd1) sd2)) = 1
    \<and> fst (Converter_ExportSpan U (fst (Converter_ExportSpan U cv sd1)) sd2)
         = fst (Converter_ExportSpan U cv sd1)
    \<and> map_of (measures (fst (Converter_ExportSpan U cv sd1))) (spanName U (conv_Namespace cv) sd1)
         = Some (fst (snd (Converter_ExportSpan U cv sd1)))
    \<and> fst (snd (Converter_ExportSpan U (fst (Converter_ExportSpan U cv sd1)) sd2))
         = fst (snd (Converter_ExportSpan U cv sd1))
    \<and> (map_of (measures cv) (spanName U (conv_Namespace cv) sd1) = None \<longrightarrow>
         measures (fst (Converter_ExportSpan U cv sd1))
           = measures cv @ [(spanName U (conv_Namespace cv) sd1,
                \<lparr>measure_name = ''span length'',
                  measure_description = ''The span length in milliseconds'',
                  measure_unit = ''ms''\<rparr>)]
         \<and> views (fst (Converter_ExportSpan U cv sd1))
           = views cv @ [\<lparr>View_Name = spanName U (conv_Namespace cv) sd1,
                View_Description = spanName U (conv_Namespace cv) sd1,
                View_Measure = \<lparr>measure_name = ''span length'',
                  measure_description = ''The span length in milliseconds'',
                  measure_unit = ''ms''\<rparr>,
                Aggregation = Distribution\<rparr>])
    \<and> (map_of (measures cv) (spanName U (conv_Namespace cv) sd1) \<noteq> None \<longrightarrow>
         fst (Converter_ExportSpan U cv sd1) = cv)
    \<and> measures (fst (Converter_ExportSpan U
           (fst (Converter_ExportSpan U (NewConverter ns) sd1)) sd2))
         = [(spanName U ns sd1,
             \<lparr>measure_name = ''span length'',
               measure_description = ''The span length in milliseconds'',
               measure_unit = ''ms''\<rparr>)]
    \<and> views (fst (Converter_ExportSpan U
           (fst (Converter_ExportSpan U (NewConverter ns) sd1)) sd2))
         = [\<lparr>View_Name = spanName U ns sd1, View_Description = spanName U ns sd1,
              View_Measure = \<lparr>measure_name = ''span length'',
                measure_description = ''The span length in milliseconds'',
                measure_unit = ''ms''\<rparr>,
              Aggregation = Distribution\<rparr>]"
proof -
  define c where "c = exported U o' r sds"
  define c1 where "c1 = ExportSpan U c sd1"
  define sig where "sig = spanName U (Namespace o') sd1"
  have u2: "\<not> urlName (Name sd2)"
    using assms by simp
  have sig2: "spanName U (Namespace o') sd2 = sig"
    using spanName_cong [OF assms(1)] by (simp add: sig_def)
  have o: "opts c = o'" "opts c1 = o'"
    by (simp_all add: c_def c1_def)
  have wf: "wf_collector c" "wf_collector c1"
    by (simp_all add: c_def c1_def wf_collector_exported wf_collector_ExportSpan)
  have l1: "lookup c1 sig \<noteq> None"
    using lookup_ExportSpan [OF assms(2), of U c] by (simp add: c1_def o sig_def)
  then obtain a where a: "lookup c1 (spanName U (Namespace (opts c1)) sd2) = Some a"
    by (auto simp add: o sig2)
  have st: "length (store (ExportSpan U c1 sd2)) = length (store c1)"
    using store_length_ExportSpan [of U c1 sd2] a by simp
  have rh: "registeredHistograms (ExportSpan U c1 sd2) = registeredHistograms c1"
    using ExportSpan_hit(1) [OF u2 a] .
  have ob: "observations (ExportSpan U c1 sd2) sig
      = observations c sig @ [spanTimeSpanMillis sd1, spanTimeSpanMillis sd2]"
    using observations_ExportSpan [OF wf(2) u2, of U sig]
      observations_ExportSpan [OF wf(1) assms(2), of U sig]
    by (simp add: o sig2 c1_def sig_def)
  have e: "ExportSpan U c1 sd2 = exported U o' r (sds @ [sd1, sd2])"
    by (simp add: exported_def c1_def c_def)
  have n: "length (Collect_histograms (ExportSpan U c1 sd2))
      = card (spanName U (Namespace o') ` {sd \<in> set (sds @ [sd1, sd2]). \<not> urlName (Name sd)})"
    unfolding e by (rule length_Collect_exported)
  have "ExportSpan U (ExportSpan U (newCollector o' r) sd1) sd2 = exported U o' r [sd1, sd2]"
    by (simp add: exported_def)
  moreover have "spanName U (Namespace o') ` {sd \<in> set [sd1, sd2]. \<not> urlName (Name sd)} = {sig}"
    using assms(2) u2 sig2 by (auto simp add: sig_def)
  ultimately have one: "length (Collect_histograms (ExportSpan U (ExportSpan U (newCollector o' r) sd1) sd2)) = 1"
    by (simp add: length_Collect_exported)
  have exporter:
    "length (store (ExportSpan U c1 sd2)) = length (store c1)
     \<and> registeredHistograms (ExportSpan U c1 sd2) = registeredHistograms c1
     \<and> lookup c1 sig \<noteq> None
     \<and> observations (ExportSpan U c1 sd2) sig
         = observations c sig @ [spanTimeSpanMillis sd1, spanTimeSpanMillis sd2]
     \<and> length (Collect_histograms (ExportSpan U c1 sd2))
         = card (spanName U (Namespace o') ` {sd \<in> set (sds @ [sd1, sd2]). \<not> urlName (Name sd)})
     \<and> length (Collect_histograms (ExportSpan U (ExportSpan U (newCollector o' r) sd1) sd2)) = 1"
    using st rh l1 ob n one by simp
  show ?thesis
    using exporter [unfolded c1_def c_def sig_def]
      Converter_ExportSpan_again [OF assms(1), of U cv]
      Converter_first_call [of U cv sd1] Converter_second_call [OF assms(1), of U cv]
      Converter_new_two_calls [OF assms(1), of U ns]
    by blast
qed


theorem C3_same_name_one_histogram_witness:
  "Name \<lparr>Name = ''checkout'', StartTime = 0, EndTime = 1500000\<rparr>
     = Name \<lparr>Name = ''checkout'', StartTime = 7, EndTime = 2000007\<rparr>
   \<and> \<not> urlName (Name \<lparr>Name = ''checkout'', StartTime = 0, EndTime = 1500000\<rparr>)
   \<and> observations
        (ExportSpan Latin1
           (ExportSpan Latin1 (exported Latin1 \<lparr>Namespace = ''svc'', OnError = None\<rparr> None [])
              \<lparr>Name = ''checkout'', StartTime = 0, EndTime = 1500000\<rparr>)
           \<lparr>Name = ''checkout'', StartTime = 7, EndTime = 2000007\<rparr>) ''svc_checkout'' = [1, 2]
   \<and> length (Collect_histograms
        (ExportSpan Latin1
           (ExportSpan Latin1 (newCollector \<lparr>Namespace = ''svc'', OnError = None\<rparr> None)
              \<lparr>Name = ''checkout'', StartTime = 0, EndTime = 1500000\<rparr>)
           \<lparr>Name = ''checkout'', StartTime = 7, EndTime = 2000007\<rparr>)) = 1
   \<and> map_of (measures (NewConverter ''svc''))
        (spanName Latin1 (conv_Namespace (NewConverter ''svc''))
           \<lparr>Name = ''checkout'', StartTime = 0, EndTime = 1500000\<rparr>) = None
   \<and> map fst (measures (fst (Converter_ExportSpan Latin1 (NewConverter ''svc'')
        \<lparr>Name = ''checkout'', StartTime = 0, EndTime = 1500000\<rparr>))) = [''svc_checkout'']
   \<and> map View_Name (views (fst (Converter_ExportSpan Latin1 (NewConverter ''svc'')
        \<lparr>Name = ''checkout'', StartTime = 0, EndTime = 1500000\<rparr>))) = [''svc_checkout'']
   \<and> map fst (measures (fst (Converter_ExportSpan Latin1
        (fst (Converter_ExportSpan Latin1 (NewConverter ''svc'')
           \<lparr>Name = ''checkout'', StartTime = 0, EndTime = 1500000\<rparr>))
        \<lparr>Name = ''checkout'', StartTime = 7, EndTime = 2000007\<rparr>))) = [''svc_checkout'']
   \<and> map View_Name (views (fst (Converter_ExportSpan Latin1
        (fst (Converter_ExportSpan Latin1 (NewConverter ''svc'')
           \<lparr>Name = ''checkout'', StartTime = 0, EndTime = 1500000\<rparr>))
        \<lparr>Name = ''checkout'', StartTime = 7, EndTime = 2000007\<rparr>))) = [''svc_checkout'']"
proof -
  have h: "Name \<lparr>Name = ''checkout'', StartTime = 0, EndTime = 1500000\<rparr>
     = Name \<lparr>Name = ''checkout'', StartTime = 7, EndTime = 2000007\<rparr>"
    "\<not> urlName (Name \<lparr>Name = ''checkout'', StartTime = 0, EndTime = 1500000\<rparr>)"
    by code_simp+
  have e: "spanName Latin1 ''svc'' \<lparr>Name = ''checkout'', StartTime = 0, EndTime = 1500000\<rparr> = ''svc_checkout''"
    "observations (exported Latin1 \<lparr>Namespace = ''svc'', OnError = None\<rparr> None []) ''svc_checkout'' = []"
    "spanTimeSpanMillis \<lparr>Name = ''checkout'', StartTime = 0, EndTime = 1500000\<rparr> = 1"
    "spanTimeSpanMillis \<lparr>Name = ''checkout'', StartTime = 7, EndTime = 2000007\<rparr> = 2"
    by code_simp+
  have n: "conv_Namespace (NewConverter ''svc'') = ''svc''" "measures (NewConverter ''svc'') = []"
    "views (NewConverter ''svc'') = []"
    by (simp_all add: NewConverter_def)
  from C3_same_name_one_histogram [OF h, of Latin1 "\<lparr>Namespace = ''svc'', OnError = None\<rparr>" None "[]"
      "NewConverter ''svc''" "''svc''"] e h n
  show ?thesis
    by simp
qed

section \<open>Registration with the backend\<close>

lemma effects_ensureRegisteredOnce:
  "effects (ensureRegisteredOnce c) =
     (if registerOnce c then effects c
      else effects c @ RegisterCalled #
        (case reg c of
           None \<Rightarrow> []
         | Some err \<Rightarrow>
             [case OnError (opts c) of
                Some f \<Rightarrow> OnErrorCalled f (''cannot register the collector: '' @ err)
              | None \<Rightarrow>
                  LogPrintf (''Failed to export spans to Prometheus: ''
                    @ ''cannot register the collector: '' @ err)]))"
  by (simp add: ensureRegisteredOnce_def onError_def Let_def split: option.split)

lemma effects_ExportSpan:
  "effects (ExportSpan U c sd) =
     (if urlName (Name sd) then effects c else effects (ensureRegisteredOnce c))"
  by (simp add: ExportSpan_def getHistogram_def NewHistogram_def insert_histogram_def Observe_def
      Let_def effects_ensureRegisteredOnce split: option.split prod.split)

lemma registerOnce_ExportSpan:
  "registerOnce (ExportSpan U c sd) = (registerOnce c \<or> \<not> urlName (Name sd))"
  by (simp add: ExportSpan_def getHistogram_def NewHistogram_def insert_histogram_def Observe_def
      Let_def split: option.split prod.split)

lemma effects_exported:
  "registerOnce (exported U o' r sds) = (\<exists>sd \<in> set sds. \<not> urlName (Name sd))
   \<and> effects (exported U o' r sds) =
      (if \<exists>sd \<in> set sds. \<not> urlName (Name sd)
       then RegisterCalled #
         (case r of
            None \<Rightarrow> []
          | Some err \<Rightarrow>
              [case OnError o' of
                 Some f \<Rightarrow> OnErrorCalled f (''cannot register the collector: '' @ err)
               | None \<Rightarrow>
                   LogPrintf (''Failed to export spans to Prometheus: ''
                     @ ''cannot register the collector: '' @ err)])
       else [])"
proof (induction sds rule: rev_induct)
  case Nil
  show ?case by (simp add: exported_def newCollector_def)
next
  case (snoc sd sds)
  then show ?case
    by (auto simp add: exported_snoc effects_ExportSpan registerOnce_ExportSpan
        effects_ensureRegisteredOnce split: option.split)
qed

lemma ExportSpan_same_histograms:
  assumes "opts c1 = opts c2" and "store c1 = store c2"
    and "registeredHistograms c1 = registeredHistograms c2"
  shows "store (ExportSpan U c1 sd) = store (ExportSpan U c2 sd)
    \<and> registeredHistograms (ExportSpan U c1 sd) = registeredHistograms (ExportSpan U c2 sd)"
proof (cases "urlName (Name sd)")
  case True
  with assms show ?thesis by (simp add: ExportSpan_urlName)
next
  case False
  have l: "lookup c1 (spanName U (Namespace (opts c1)) sd)
      = lookup c2 (spanName U (Namespace (opts c2)) sd)"
    using assms by (simp add: lookup_def)
  show ?thesis
  proof (cases "lookup c2 (spanName U (Namespace (opts c2)) sd)")
    case None
    with l have "lookup c1 (spanName U (Namespace (opts c1)) sd) = None" by simp
    with None assms show ?thesis
      by (simp add: ExportSpan_miss [OF False])
  next
    case (Some a)
    with l have "lookup c1 (spanName U (Namespace (opts c1)) sd) = Some a" by simp
    with Some assms show ?thesis
      by (simp add: ExportSpan_hit [OF False])
  qed
qed

lemma exported_same_histograms:
  "store (exported U o' r sds) = store (exported U o' None sds)
   \<and> registeredHistograms (exported U o' r sds) = registeredHistograms (exported U o' None sds)"
proof (induction sds rule: rev_induct)
  case Nil
  show ?case by (simp add: exported_def newCollector_def)
next
  case (snoc sd sds)
  then show ?case
    using ExportSpan_same_histograms [of "exported U o' r sds" "exported U o' None sds" U sd]
    by (simp add: exported_snoc)
qed

text \<open>
  C9: after any sequence of calls on a new collector, \<open>reg.Register\<close> has been called
  once if some span was exported and not at all if every span was filtered; a call on a
  collector whose \<open>sync.Once\<close> has run adds no effect. When the registry answers with
  an error, the only further effect is one call of the configured \<open>OnError\<close> callback,
  or one line of the log when none is configured; \<open>ExportSpan\<close> returns normally and
  the histograms are the same as if registration had succeeded.
\<close>

theorem C9_registration_exactly_once:
  "effects (exported U o' r sds) =
      (if \<exists>sd \<in> set sds. \<not> urlName (Name sd)
       then RegisterCalled #
         (case r of
            None \<Rightarrow> []
          | Some err \<Rightarrow>
              [case OnError o' of
                 Some f \<Rightarrow> OnErrorCalled f (''cannot register the collector: '' @ err)
               | None \<Rightarrow>
                   LogPrintf (''Failed to export spans to Prometheus: ''
                     @ ''cannot register the collector: '' @ err)])
       else [])
   \<and> registrations (exported U o' r sds) = (if \<exists>sd \<in> set sds. \<not> urlName (Name sd) then 1 else 0)
   \<and> (registerOnce c \<longrightarrow> effects (ExportSpan U c sd) = effects c)
   \<and> store (exported U o' r sds) = store (exported U o' None sds)
   \<and> registeredHistograms (exported U o' r sds) = registeredHistograms (exported U o' None sds)"
proof -
  have "registrations (exported U o' r sds) = (if \<exists>sd \<in> set sds. \<not> urlName (Name sd) then 1 else 0)"
    by (simp add: registrations_def effects_exported split: option.split)
  moreover have "effects (ExportSpan U c sd) = effects c" if "registerOnce c"
    using that by (simp add: effects_ExportSpan effects_ensureRegisteredOnce)
  ultimately show ?thesis
    using effects_exported [of U o' r sds] exported_same_histograms [of U o' r sds]
    by simp
qed


theorem C9_registration_exactly_once_witness:
  "effects (exported Latin1 \<lparr>Namespace = ''svc'', OnError = Some (Callback 7)\<rparr> (Some ''duplicate'')
      [\<lparr>Name = ''/users/42'', StartTime = 0, EndTime = 1\<rparr>,
       \<lparr>Name = ''checkout'', StartTime = 0, EndTime = 1\<rparr>,
       \<lparr>Name = ''login'', StartTime = 0, EndTime = 1\<rparr>])
     = [RegisterCalled, OnErrorCalled (Callback 7) ''cannot register the collector: duplicate'']
   \<and> registerOnce (exported Latin1 \<lparr>Namespace = ''svc'', OnError = None\<rparr> (Some ''duplicate'')
        [\<lparr>Name = ''checkout'', StartTime = 0, EndTime = 1\<rparr>])
   \<and> effects (ExportSpan Latin1
        (exported Latin1 \<lparr>Namespace = ''svc'', OnError = None\<rparr> (Some ''duplicate'')
          [\<lparr>Name = ''checkout'', StartTime = 0, EndTime = 1\<rparr>])
        \<lparr>Name = ''login'', StartTime = 0, EndTime = 1\<rparr>)
     = [RegisterCalled,
        LogPrintf ''Failed to export spans to Prometheus: cannot register the collector: duplicate'']"
proof -
  have h: "registerOnce (exported Latin1 \<lparr>Namespace = ''svc'', OnError = None\<rparr> (Some ''duplicate'')
        [\<lparr>Name = ''checkout'', StartTime = 0, EndTime = 1\<rparr>])"
    by code_simp
  have e: "urlName ''/users/42''" "\<not> urlName ''checkout''" "\<not> urlName ''login''"
    by code_simp+
  have f: "effects (exported Latin1 \<lparr>Namespace = ''svc'', OnError = None\<rparr> (Some ''duplicate'')
        [\<lparr>Name = ''checkout'', StartTime = 0, EndTime = 1\<rparr>])
     = [RegisterCalled,
        LogPrintf ''Failed to export spans to Prometheus: cannot register the collector: duplicate'']"
    by code_simp
  from C9_registration_exactly_once [of Latin1 "\<lparr>Namespace = ''svc'', OnError = Some (Callback 7)\<rparr>" "Some ''duplicate''"
      "[\<lparr>Name = ''/users/42'', StartTime = 0, EndTime = 1\<rparr>,
        \<lparr>Name = ''checkout'', StartTime = 0, EndTime = 1\<rparr>,
        \<lparr>Name = ''login'', StartTime = 0, EndTime = 1\<rparr>]"
      "exported Latin1 \<lparr>Namespace = ''svc'', OnError = None\<rparr> (Some ''duplicate'')
        [\<lparr>Name = ''checkout'', StartTime = 0, EndTime = 1\<rparr>]"
      "\<lparr>Name = ''login'', StartTime = 0, EndTime = 1\<rparr>"] h e f
  show ?thesis
    by simp
qed

section \<open>Path-like names\<close>

text \<open>The exporter returns at once on a name that starts with a slash.\<close>

lemma urlName_iff: "urlName s \<longleftrightarrow> s \<noteq> [] \<and> hd s = CHR ''/''"
  by (cases s) (simp_all add: urlName_def HasPrefix_def)

lemma Exporter_drops_path_span: "urlName (Name sd) \<Longrightarrow> ExportSpan U c sd = c"
  by (rule ExportSpan_urlName)

lemma Exporter_path_filter_example:
  "Collect_histograms (exported Latin1 \<lparr>Namespace = ''svc'', OnError = None\<rparr> None
     [\<lparr>Name = ''/users/42'', StartTime = 0, EndTime = 1500000\<rparr>]) = []"
  "length (Collect_histograms (exported Latin1 \<lparr>Namespace = ''svc'', OnError = None\<rparr> None
     [\<lparr>Name = ''checkout'', StartTime = 0, EndTime = 1500000\<rparr>])) = 1"
  by code_simp+

text \<open>
  C2 holds of the exporter and fails in the converter, which defines \<open>urlName\<close> and
  never calls it: the span named \<open>/users/42\<close> gets a measure under the key
  \<open>svc_key_users_42\<close>, a registered view and a measurement of 1 millisecond.
\<close>

theorem C2_Converter_exports_path_span:
  "Converter_ExportSpan Latin1 (NewConverter ''svc'')
     \<lparr>Name = ''/users/42'', StartTime = 0, EndTime = 1500000\<rparr>
   = (\<lparr>conv_Namespace = ''svc'',
       measures = [(''svc_key_users_42'',
          \<lparr>measure_name = ''span length'',
            measure_description = ''The span length in milliseconds'', measure_unit = ''ms''\<rparr>)],
       views = [\<lparr>View_Name = ''svc_key_users_42'', View_Description = ''svc_key_users_42'',
          View_Measure = \<lparr>measure_name = ''span length'',
            measure_description = ''The span length in milliseconds'', measure_unit = ''ms''\<rparr>,
          Aggregation = [0, 4294967296, 8589934592, 12884901888]\<rparr>],
       logged = [(''Creating Measure: %s'', ''svc_key_users_42'')]\<rparr>,
      (\<lparr>measure_name = ''span length'',
         measure_description = ''The span length in milliseconds'', measure_unit = ''ms''\<rparr>, 1))"
  by code_simp

section \<open>Bucket boundaries\<close>

text \<open>Every histogram the exporter has created has the millisecond buckets.\<close>

lemma store_buckets_ExportSpan:
  assumes "list_all (\<lambda>h. Opts_Buckets h = Buckets) (store c)"
  shows "list_all (\<lambda>h. Opts_Buckets h = Buckets) (store (ExportSpan U c sd))"
proof (cases "urlName (Name sd)")
  case True
  with assms show ?thesis by (simp add: ExportSpan_urlName)
next
  case False
  show ?thesis
  proof (cases "lookup c (spanName U (Namespace (opts c)) sd)")
    case None
    with assms show ?thesis
      by (simp add: ExportSpan_miss [OF False None])
  next
    case (Some a)
    show ?thesis
    proof (cases "a < length (store c)")
      case True
      then have "Opts_Buckets (store c ! a) = Buckets"
        using assms by (simp add: list_all_length)
      with assms True show ?thesis
        by (auto simp add: ExportSpan_hit [OF False Some] list_all_length nth_list_update)
    next
      case False
      with assms show ?thesis
        by (simp add: ExportSpan_hit [OF \<open>\<not> urlName (Name sd)\<close> Some] list_update_beyond)
    qed
  qed
qed

lemma store_buckets_exported:
  "list_all (\<lambda>h. Opts_Buckets h = Buckets) (store (exported U o' r sds))"
  by (induction sds rule: rev_induct)
     (simp_all add: exported_snoc store_buckets_ExportSpan, simp add: exported_def newCollector_def)

text \<open>
  C6 holds of the exporter and fails in the converter, whose view aggregates over the
  bounds \<open>0\<close>, \<open>1<<32\<close>, \<open>2<<32\<close> and \<open>3<<32\<close>; the millisecond buckets are there in a
  comment only.
\<close>

theorem C6_Converter_view_bounds:
  "map Aggregation
     (views (fst (Converter_ExportSpan Latin1 (NewConverter ''svc'')
        \<lparr>Name = ''checkout'', StartTime = 0, EndTime = 1500000\<rparr>)))
   = [[0, 4294967296, 8589934592, 12884901888]]"
  by code_simp

section \<open>Two callers at once\<close>

text \<open>A caller that runs alone does what \<open>ExportSpan\<close> does.\<close>

lemma run_alone:
  "run U (spawn c [sd]) [0, 0, 0, 0, 0] = (ExportSpan U c sd, [(sd, Finished)])"
proof (cases "urlName (Name sd)")
  case True
  then show ?thesis
    by (simp add: run_def step_def spawn_def ExportSpan_def)
next
  case False
  show ?thesis
  proof (cases "lookup c (spanName U (Namespace (opts c)) sd)")
    case None
    with False show ?thesis
      by (simp add: run_def step_def spawn_def ExportSpan_def getHistogram_def NewHistogram_def
          Let_def)
  next
    case (Some a)
    with False show ?thesis
      by (simp add: run_def step_def spawn_def ExportSpan_def getHistogram_def)
  qed
qed

lemma run_one_after_the_other:
  "Collect_histograms (fst (run Latin1
     (spawn (newCollector \<lparr>Namespace = ''svc'', OnError = None\<rparr> None)
        [\<lparr>Name = ''checkout'', StartTime = 0, EndTime = 1500000\<rparr>,
         \<lparr>Name = ''checkout'', StartTime = 0, EndTime = 2500000\<rparr>])
     [0, 0, 0, 0, 0, 1, 1, 1, 1, 1]))
   = [\<lparr>Opts_Namespace = ''svc'', Opts_Name = ''checkout'', Opts_Help = ''checkout'',
        Opts_Buckets = [1, 10, 50, 100, 250, 500, 1000, 10000, 60000, 120000],
        observed = [1, 2]\<rparr>]"
  by code_simp

text \<open>
  Two callers with one new name that take their steps in turn: each creates a
  histogram, and only the second caller's observation is under the name's key.
\<close>

lemma interleaved_in_general:
  assumes "\<not> urlName (Name sd1)" and "Name sd2 = Name sd1"
    and "lookup c (spanName U (Namespace (opts c)) sd1) = None"
  shows "map snd (snd (run U (spawn c [sd1, sd2]) [0, 1, 0, 1, 0, 1, 0, 1, 0, 1])) = [Finished, Finished]
    \<and> length (store (fst (run U (spawn c [sd1, sd2]) [0, 1, 0, 1, 0, 1, 0, 1, 0, 1])))
        = length (store c) + 2
    \<and> observations (fst (run U (spawn c [sd1, sd2]) [0, 1, 0, 1, 0, 1, 0, 1, 0, 1]))
        (spanName U (Namespace (opts c)) sd1) = [spanTimeSpanMillis sd2]"
proof -
  have s: "spanName U ns sd2 = spanName U ns sd1" for ns
    using assms(2) by (simp add: spanName_def)
  have l: "map_of (registeredHistograms c) (spanName U (Namespace (opts c)) sd1) = None"
    using assms(3) by (simp add: lookup_def)
  show ?thesis
    using assms(1,2) l
    by (simp add: run_def step_def spawn_def s lookup_def NewHistogram_def insert_histogram_def
        Observe_def observations_def Let_def update_absent update_conv' nth_append)
qed

text \<open>
  C4 fails when two callers with the same new name take their steps in turn. The map is
  read under the lock and written under the lock, but the lock is released in between
  and presence is not checked again before the write. Both callers miss, both create a
  histogram, the second assignment replaces the first, and each caller observes into
  its own histogram: two histograms were created, and the one left in the map holds one
  of the two observations.
\<close>

theorem C4_interleaved_callers_lose_observation:
  "run Latin1
     (spawn (newCollector \<lparr>Namespace = ''svc'', OnError = None\<rparr> None)
        [\<lparr>Name = ''checkout'', StartTime = 0, EndTime = 1500000\<rparr>,
         \<lparr>Name = ''checkout'', StartTime = 0, EndTime = 2500000\<rparr>])
     [0, 1, 0, 1, 0, 1, 0, 1, 0, 1]
   = (\<lparr>opts = \<lparr>Namespace = ''svc'', OnError = None\<rparr>, registerOnce = True, reg = None,
       registeredHistograms = [(''svc_checkout'', 1)],
       store =
         [\<lparr>Opts_Namespace = ''svc'', Opts_Name = ''checkout'', Opts_Help = ''checkout'',
            Opts_Buckets = [1, 10, 50, 100, 250, 500, 1000, 10000, 60000, 120000],
            observed = [1]\<rparr>,
          \<lparr>Opts_Namespace = ''svc'', Opts_Name = ''checkout'', Opts_Help = ''checkout'',
            Opts_Buckets = [1, 10, 50, 100, 250, 500, 1000, 10000, 60000, 120000],
            observed = [2]\<rparr>],
       effects = [RegisterCalled]\<rparr>,
      [(\<lparr>Name = ''checkout'', StartTime = 0, EndTime = 1500000\<rparr>, Finished),
       (\<lparr>Name = ''checkout'', StartTime = 0, EndTime = 2500000\<rparr>, Finished)])"
  by code_simp

end
